theory Spec2Isabelle
  imports Complex_Main "HOL-Library.Char_ord" "HOL-Library.List_Lexorder"
begin

section \<open>Values of the Python program\<close>

text \<open>
  Floating-point numbers (Python \<^verbatim>\<open>float\<close>, \<^verbatim>\<open>numpy.float64\<close>) are modelled with their
  special values made explicit: a finite value is an exact real (rounding of the binary
  representation and the sign of zero are not modelled), and \<open>inf\<close>, \<open>-inf\<close> and \<open>nan\<close>
  are separate constructors. Arithmetic and comparisons follow IEEE 754 on these
  special values, which is what pandas and numpy compute with (no exception is raised
  on a division by zero).
\<close>

datatype fl = Fin real | PInf | NInf | NaN

fun fl_neg :: "fl \<Rightarrow> fl" where
  "fl_neg (Fin a) = Fin (- a)"
| "fl_neg PInf = NInf"
| "fl_neg NInf = PInf"
| "fl_neg NaN = NaN"

fun fl_add :: "fl \<Rightarrow> fl \<Rightarrow> fl" where
  "fl_add NaN _ = NaN"
| "fl_add _ NaN = NaN"
| "fl_add (Fin a) (Fin b) = Fin (a + b)"
| "fl_add PInf NInf = NaN"
| "fl_add NInf PInf = NaN"
| "fl_add PInf _ = PInf"
| "fl_add NInf _ = NInf"
| "fl_add (Fin a) PInf = PInf"
| "fl_add (Fin a) NInf = NInf"

definition fl_sub :: "fl \<Rightarrow> fl \<Rightarrow> fl" where
  "fl_sub a b = fl_add a (fl_neg b)"

fun fl_sgn :: "fl \<Rightarrow> int" where
  "fl_sgn (Fin a) = (if a < 0 then - 1 else if a = 0 then 0 else 1)"
| "fl_sgn PInf = 1"
| "fl_sgn NInf = - 1"
| "fl_sgn NaN = 0"

fun fl_mul :: "fl \<Rightarrow> fl \<Rightarrow> fl" where
  "fl_mul NaN _ = NaN"
| "fl_mul _ NaN = NaN"
| "fl_mul (Fin a) (Fin b) = Fin (a * b)"
| "fl_mul a b =
     (if fl_sgn a * fl_sgn b = 0 then NaN
      else if fl_sgn a * fl_sgn b > 0 then PInf else NInf)"

text \<open>
  Division: a finite non-zero value over zero is an infinity, zero over zero is \<open>nan\<close>,
  a finite value over an infinity is zero, an infinity over an infinity is \<open>nan\<close>.
\<close>

fun fl_div :: "fl \<Rightarrow> fl \<Rightarrow> fl" where
  "fl_div NaN _ = NaN"
| "fl_div _ NaN = NaN"
| "fl_div (Fin a) (Fin b) =
     (if b = 0 then (if a = 0 then NaN else if a > 0 then PInf else NInf)
      else Fin (a / b))"
| "fl_div (Fin a) PInf = Fin 0"
| "fl_div (Fin a) NInf = Fin 0"
| "fl_div PInf (Fin b) = (if b < 0 then NInf else PInf)"
| "fl_div NInf (Fin b) = (if b < 0 then PInf else NInf)"
| "fl_div _ _ = NaN"

text \<open>Comparisons: every comparison with \<open>nan\<close> is false, except \<open>!=\<close>.\<close>

fun fl_lt :: "fl \<Rightarrow> fl \<Rightarrow> bool" where
  "fl_lt NaN _ = False"
| "fl_lt _ NaN = False"
| "fl_lt (Fin a) (Fin b) = (a < b)"
| "fl_lt NInf NInf = False"
| "fl_lt NInf _ = True"
| "fl_lt _ PInf = True"
| "fl_lt PInf _ = False"
| "fl_lt (Fin a) NInf = False"

definition fl_gt :: "fl \<Rightarrow> fl \<Rightarrow> bool" where
  "fl_gt a b = fl_lt b a"

definition fl_ge :: "fl \<Rightarrow> fl \<Rightarrow> bool" where
  "fl_ge a b = (a \<noteq> NaN \<and> b \<noteq> NaN \<and> \<not> fl_lt a b)"

definition fl_ne :: "fl \<Rightarrow> fl \<Rightarrow> bool" where
  "fl_ne a b = (a = NaN \<or> b = NaN \<or> a \<noteq> b)"

fun fl_abs :: "fl \<Rightarrow> fl" where
  "fl_abs (Fin a) = Fin \<bar>a\<bar>"
| "fl_abs PInf = PInf"
| "fl_abs NInf = PInf"
| "fl_abs NaN = NaN"

fun fl_sqrt :: "fl \<Rightarrow> fl" where
  "fl_sqrt (Fin a) = (if a < 0 then NaN else Fin (sqrt a))"
| "fl_sqrt PInf = PInf"
| "fl_sqrt NInf = NaN"
| "fl_sqrt NaN = NaN"

text \<open>
  Python's builtins \<^verbatim>\<open>min(a, b)\<close> and \<^verbatim>\<open>max(a, b)\<close> return the first argument unless
  the second is strictly smaller (larger).
\<close>

definition py_min :: "fl \<Rightarrow> fl \<Rightarrow> fl" where
  "py_min a b = (if fl_lt b a then b else a)"

definition py_max :: "fl \<Rightarrow> fl \<Rightarrow> fl" where
  "py_max a b = (if fl_gt b a then b else a)"

text \<open>
  \<^verbatim>\<open>round(x, n)\<close>: the nearest multiple of \<open>10^-n\<close>, ties to the even one; the special
  values are returned unchanged.
\<close>

definition round_half_even :: "real \<Rightarrow> int" where
  "round_half_even x =
     (let f = \<lfloor>x\<rfloor>; d = x - of_int f
      in if d < 1 / 2 then f else if d > 1 / 2 then f + 1
         else if even f then f else f + 1)"

fun py_round :: "fl \<Rightarrow> nat \<Rightarrow> fl" where
  "py_round (Fin a) n = Fin (of_int (round_half_even (a * 10 ^ n)) / 10 ^ n)"
| "py_round x n = x"

text \<open>
  The values the state dictionaries hold. A \<^verbatim>\<open>dict\<close> is an association list with
  unique keys; the price history (a pandas \<^verbatim>\<open>DataFrame\<close>) is the list of its rows
  in index order, each row its date (as \<^verbatim>\<open>YYYY-MM-DD\<close>) and its \<^verbatim>\<open>Close\<close> price.
\<close>

datatype val =
    VNone
  | VBool bool
  | VNum fl
  | VStr string
  | VList "val list"
  | VDict "(string \<times> val) list"
  | VFrame "(string \<times> real) list"

type_synonym dict = "(string \<times> val) list"

datatype py_error =
    KeyError string
  | AttributeError
  | TypeError
  | ValueError
  | IndexError
  | ZeroDivisionError
  | Exception string

text \<open>\<^verbatim>\<open>d.get(k)\<close>, \<^verbatim>\<open>d.get(k, default)\<close>, \<^verbatim>\<open>d[k]\<close> and \<^verbatim>\<open>d[k] = v\<close>.\<close>

definition dict_get :: "dict \<Rightarrow> string \<Rightarrow> val" where
  "dict_get d k = (case map_of d k of None \<Rightarrow> VNone | Some v \<Rightarrow> v)"

definition dict_get_or :: "dict \<Rightarrow> string \<Rightarrow> val \<Rightarrow> val" where
  "dict_get_or d k dflt = (case map_of d k of None \<Rightarrow> dflt | Some v \<Rightarrow> v)"

definition dict_item :: "dict \<Rightarrow> string \<Rightarrow> py_error + val" where
  "dict_item d k = (case map_of d k of None \<Rightarrow> Inl (KeyError k) | Some v \<Rightarrow> Inr v)"

fun dict_set :: "string \<Rightarrow> val \<Rightarrow> dict \<Rightarrow> dict" where
  "dict_set k v [] = [(k, v)]"
| "dict_set k v ((k', v') # d) =
     (if k = k' then (k, v) # d else (k', v') # dict_set k v d)"

definition keys :: "dict \<Rightarrow> string set" where
  "keys d = fst ` set d"

text \<open>\<^verbatim>\<open>x.get(k, default)\<close> where \<open>x\<close> need not be a dict: any other value has no \<^verbatim>\<open>get\<close>.\<close>

fun val_get_or :: "val \<Rightarrow> string \<Rightarrow> val \<Rightarrow> py_error + val" where
  "val_get_or (VDict d) k dflt = Inr (dict_get_or d k dflt)"
| "val_get_or _ k dflt = Inl AttributeError"

text \<open>\<^verbatim>\<open>x[k]\<close> with a string key: only a dict can be subscripted by it.\<close>

fun val_item :: "val \<Rightarrow> string \<Rightarrow> py_error + val" where
  "val_item (VDict d) k = dict_item d k"
| "val_item _ k = Inl TypeError"

text \<open>
  \<^verbatim>\<open>isinstance(x, (int, float))\<close> with the number: \<^verbatim>\<open>bool\<close> is a subclass of
  \<^verbatim>\<open>int\<close>.
\<close>

fun num_of :: "val \<Rightarrow> fl option" where
  "num_of (VNum x) = Some x"
| "num_of (VBool b) = Some (Fin (if b then 1 else 0))"
| "num_of _ = None"

text \<open>Truth value of an object, as \<^verbatim>\<open>if x\<close> and \<^verbatim>\<open>x or y\<close> test it.\<close>

fun truthy :: "val \<Rightarrow> py_error + bool" where
  "truthy VNone = Inr False"
| "truthy (VBool b) = Inr b"
| "truthy (VNum x) = Inr (x \<noteq> Fin 0)"
| "truthy (VStr s) = Inr (s \<noteq> [])"
| "truthy (VList xs) = Inr (xs \<noteq> [])"
| "truthy (VDict d) = Inr (d \<noteq> [])"
| "truthy (VFrame rows) = Inl ValueError"

section \<open>String formatting\<close>

definition lower_char :: "char \<Rightarrow> char" where
  "lower_char c =
     (case map_of (zip ''ABCDEFGHIJKLMNOPQRSTUVWXYZ'' ''abcdefghijklmnopqrstuvwxyz'') c of
        None \<Rightarrow> c
      | Some l \<Rightarrow> l)"

text \<open>\<^verbatim>\<open>str.lower()\<close> on ASCII text.\<close>

definition lower :: "string \<Rightarrow> string" where
  "lower s = map lower_char s"

definition digit_char :: "nat \<Rightarrow> char" where
  "digit_char d = ''0123456789'' ! d"

fun digits_of :: "nat \<Rightarrow> string" where
  "digits_of n = (if n < 10 then [digit_char n] else digits_of (n div 10) @ [digit_char (n mod 10)])"

declare digits_of.simps [simp del]

text \<open>The format specification \<^verbatim>\<open>.2f\<close>: two decimals, the sign of a negative value kept.\<close>

definition fixed2 :: "real \<Rightarrow> string" where
  "fixed2 x =
     (let q = nat (round_half_even (\<bar>x\<bar> * 100))
      in (if x < 0 then ''-'' else '''') @ digits_of (q div 100) @ ''.''
         @ [digit_char (q div 10 mod 10), digit_char (q mod 10)])"

fun fmt_2f :: "fl \<Rightarrow> string" where
  "fmt_2f (Fin x) = fixed2 x"
| "fmt_2f PInf = ''inf''"
| "fmt_2f NInf = ''-inf''"
| "fmt_2f NaN = ''nan''"

text \<open>The format specification \<^verbatim>\<open>.2%\<close>: the value times 100, two decimals, a percent sign.\<close>

fun fmt_2pct :: "fl \<Rightarrow> string" where
  "fmt_2pct (Fin x) = fixed2 (x * 100) @ ''%''"
| "fmt_2pct PInf = ''inf%''"
| "fmt_2pct NInf = ''-inf%''"
| "fmt_2pct NaN = ''nan%''"

text \<open>
  \<^verbatim>\<open>f"{x:.2f}"\<close> on an arbitrary object: a number is formatted, a string rejects the
  format code (\<^verbatim>\<open>ValueError\<close>), every other object rejects a non-empty format
  string (\<^verbatim>\<open>TypeError\<close>).
\<close>

fun format_2f :: "val \<Rightarrow> py_error + string" where
  "format_2f (VNum x) = Inr (fmt_2f x)"
| "format_2f (VBool b) = Inr (fmt_2f (Fin (if b then 1 else 0)))"
| "format_2f (VStr s) = Inl ValueError"
| "format_2f _ = Inl TypeError"

fun join :: "string \<Rightarrow> string list \<Rightarrow> string" where
  "join sep [] = []"
| "join sep [x] = x"
| "join sep (x # y # ys) = x @ sep @ join sep (y # ys)"

section \<open>The deterministic summary (\<^verbatim>\<open>generate_offline_summary\<close> in \<^verbatim>\<open>nodes.py\<close>)\<close>

text \<open>Sequencing of statements that may raise: the first exception ends the function.\<close>

definition and_then :: "py_error + 'a \<Rightarrow> ('a \<Rightarrow> py_error + 'b) \<Rightarrow> py_error + 'b" where
  "and_then m f = (case m of Inl e \<Rightarrow> Inl e | Inr x \<Rightarrow> f x)"

text \<open>\<^verbatim>\<open>trend.lower()\<close>: only a string has the method.\<close>

fun str_lower :: "val \<Rightarrow> py_error + string" where
  "str_lower (VStr s) = Inr (lower s)"
| "str_lower _ = Inl AttributeError"

text \<open>
  \<^verbatim>\<open>pe_numeric = None; if pe_ratio != "N/A" and isinstance(pe_ratio, (int, float)):
  pe_numeric = float(pe_ratio)\<close>
\<close>

definition pe_numeric_of :: "val \<Rightarrow> fl option" where
  "pe_numeric_of pe_ratio =
     (if pe_ratio \<noteq> VStr ''N/A'' \<and> num_of pe_ratio \<noteq> None then num_of pe_ratio else None)"

text \<open>\<^verbatim>\<open>isinstance(v, (int, float)) and v < c\<close>, and the same with \<^verbatim>\<open>>\<close> and \<^verbatim>\<open>>=\<close>.\<close>

definition is_num_lt :: "val \<Rightarrow> real \<Rightarrow> bool" where
  "is_num_lt v c = (case num_of v of None \<Rightarrow> False | Some x \<Rightarrow> fl_lt x (Fin c))"

definition is_num_gt :: "val \<Rightarrow> real \<Rightarrow> bool" where
  "is_num_gt v c = (case num_of v of None \<Rightarrow> False | Some x \<Rightarrow> fl_gt x (Fin c))"

definition is_num_ge :: "val \<Rightarrow> real \<Rightarrow> bool" where
  "is_num_ge v c = (case num_of v of None \<Rightarrow> False | Some x \<Rightarrow> fl_ge x (Fin c))"

definition pe_reasonable_of :: "fl option \<Rightarrow> bool" where
  "pe_reasonable_of pe_numeric =
     (case pe_numeric of None \<Rightarrow> True | Some p \<Rightarrow> fl_lt p (Fin 30))"

text \<open>
  The decision framework (lines 224 to 244). \<open>trend_lower\<close> is \<^verbatim>\<open>trend.lower()\<close>.
\<close>

definition recommend :: "string \<Rightarrow> val \<Rightarrow> fl option \<Rightarrow> val \<Rightarrow> val \<Rightarrow> string" where
  "recommend trend_lower rsi pe_numeric sharpe_ratio current_drawdown =
     (let is_bullish = (trend_lower = ''bullish'');
          rsi_ok = is_num_lt rsi 70;
          rsi_oversold = is_num_lt rsi 30;
          rsi_overbought = is_num_gt rsi 70;
          sharpe_positive = is_num_ge sharpe_ratio (1 / 2);
          drawdown_severe = is_num_lt current_drawdown (- (15 / 100));
          pe_reasonable = pe_reasonable_of pe_numeric
      in if is_bullish \<and> rsi_ok \<and> (pe_reasonable \<or> sharpe_positive) then ''BUY''
         else if \<not> is_bullish \<and> (\<not> pe_reasonable \<or> drawdown_severe) then ''SELL''
         else ''HOLD'')"

text \<open>The risk level assessment (lines 246 to 256).\<close>

definition assess_risk_level :: "val \<Rightarrow> val \<Rightarrow> val \<Rightarrow> string" where
  "assess_risk_level volatility current_drawdown sharpe_ratio =
     (if is_num_ge volatility (35 / 100) then ''High''
      else if is_num_lt current_drawdown (- (30 / 100)) then ''Extreme''
      else if is_num_lt volatility (20 / 100) \<and> is_num_ge sharpe_ratio (7 / 10) then ''Low''
      else if is_num_lt volatility (25 / 100) then ''Medium''
      else ''Medium'')"

text \<open>
  The reasoning text (lines 258 to 273). The RSI is formatted without a type check,
  and so is the Sharpe ratio once the volatility is a number.
\<close>

definition build_reasoning ::
  "string \<Rightarrow> val \<Rightarrow> fl option \<Rightarrow> val \<Rightarrow> val \<Rightarrow> val \<Rightarrow> py_error + string" where
  "build_reasoning trend_lower rsi pe_numeric volatility sharpe_ratio current_drawdown =
     and_then (format_2f rsi) (\<lambda>rsi_s.
     let part1 = [''Technical analysis shows a '' @ trend_lower @ '' trend with RSI at ''
                    @ rsi_s @ ''.''];
         part2 = (case pe_numeric of
                    Some p \<Rightarrow> [''P/E ratio of '' @ fmt_2f p @ '' indicates ''
                                 @ (if pe_reasonable_of pe_numeric then ''reasonable''
                                    else ''elevated'') @ '' valuation.'']
                  | None \<Rightarrow> [''Valuation metrics are not available.''])
     in and_then (case num_of volatility of
                    Some v \<Rightarrow> and_then (format_2f sharpe_ratio) (\<lambda>sharpe_s.
                                Inr [''Volatility is '' @ fmt_2pct v
                                       @ '' with a Sharpe ratio of '' @ sharpe_s @ ''.''])
                  | None \<Rightarrow> Inr []) (\<lambda>part3.
        let part4 = (case num_of current_drawdown of
                       Some d \<Rightarrow> [''Current drawdown is '' @ fmt_2pct d @ ''.'']
                     | None \<Rightarrow> [])
        in Inr (join '' '' (part1 @ part2 @ part3 @ part4))))"

text \<open>The key drivers (lines 275 to 286). \<open>trend\<close> is the string as stored.\<close>

definition build_key_drivers ::
  "string \<Rightarrow> val \<Rightarrow> fl option \<Rightarrow> val \<Rightarrow> val \<Rightarrow> val \<Rightarrow> py_error + string list" where
  "build_key_drivers trend rsi pe_numeric sharpe_ratio volatility current_drawdown =
     and_then (format_2f rsi) (\<lambda>rsi_s.
     Inr ([''Trend signal: '' @ trend, ''RSI (14): '' @ rsi_s]
          @ (case pe_numeric of Some p \<Rightarrow> [''P/E ratio: '' @ fmt_2f p] | None \<Rightarrow> [])
          @ (case num_of sharpe_ratio of Some s \<Rightarrow> [''Sharpe ratio: '' @ fmt_2f s] | None \<Rightarrow> [])
          @ (case num_of volatility of Some v \<Rightarrow> [''Volatility: '' @ fmt_2pct v] | None \<Rightarrow> [])
          @ (case num_of current_drawdown of
               Some d \<Rightarrow> [''Current drawdown: '' @ fmt_2pct d] | None \<Rightarrow> [])))"

text \<open>The report text, built the same way on both synthesis paths.\<close>

definition report_text :: "string \<Rightarrow> string \<Rightarrow> string \<Rightarrow> string list \<Rightarrow> string" where
  "report_text recommendation risk_level reasoning key_drivers =
     ''**Recommendation:** '' @ recommendation @ [CHR 0x0A]
     @ ''**Risk Level:** '' @ risk_level @ [CHR 0x0A, CHR 0x0A]
     @ ''**Reasoning:**'' @ [CHR 0x0A] @ reasoning @ [CHR 0x0A, CHR 0x0A]
     @ ''**Key Drivers:**'' @ [CHR 0x0A] @ ''- '' @ join ([CHR 0x0A] @ ''- '') key_drivers"

text \<open>The string a trend value has once \<^verbatim>\<open>lower()\<close> has succeeded on it.\<close>

fun str_of :: "val \<Rightarrow> string" where
  "str_of (VStr s) = s"
| "str_of _ = []"

text \<open>The metrics read from the state with their defaults (lines 203 to 217).\<close>

record metrics =
  m_trend :: val
  m_rsi :: val
  m_current_price :: val
  m_pe_ratio :: val
  m_current_drawdown :: val
  m_volatility :: val
  m_sharpe_ratio :: val
  m_max_drawdown :: val

definition extract_metrics :: "dict \<Rightarrow> py_error + metrics" where
  "extract_metrics state =
     (let ticker = dict_get_or state ''ticker'' (VStr ''UNKNOWN'');
          fundamentals = dict_get_or state ''fundamental_metrics'' (VDict []);
          technicals = dict_get_or state ''technical_indicators'' (VDict []);
          risk_metrics = dict_get_or state ''risk_metrics'' (VDict [])
      in and_then (val_get_or technicals ''trend'' (VStr ''Unknown'')) (\<lambda>trend.
         and_then (val_get_or technicals ''rsi_14'' (VNum (Fin 50))) (\<lambda>rsi.
         and_then (val_get_or technicals ''current_price'' (VNum (Fin 0))) (\<lambda>current_price.
         and_then (val_get_or fundamentals ''pe_ratio'' (VStr ''N/A'')) (\<lambda>pe_ratio.
         and_then (val_get_or risk_metrics ''current_drawdown'' (VNum (Fin 0))) (\<lambda>current_drawdown.
         and_then (val_get_or risk_metrics ''volatility'' (VNum (Fin 0))) (\<lambda>volatility.
         and_then (val_get_or risk_metrics ''sharpe_ratio'' (VNum (Fin 0))) (\<lambda>sharpe_ratio.
         and_then (val_get_or risk_metrics ''max_drawdown'' (VNum (Fin 0))) (\<lambda>max_drawdown.
         Inr \<lparr>m_trend = trend, m_rsi = rsi, m_current_price = current_price,
              m_pe_ratio = pe_ratio, m_current_drawdown = current_drawdown,
              m_volatility = volatility, m_sharpe_ratio = sharpe_ratio,
              m_max_drawdown = max_drawdown\<rparr>)))))))))"

definition summarise :: "metrics \<Rightarrow> py_error + dict" where
  "summarise m =
     (let pe_numeric = pe_numeric_of (m_pe_ratio m)
      in and_then (str_lower (m_trend m)) (\<lambda>trend_lower.
         let recommendation =
               recommend trend_lower (m_rsi m) pe_numeric (m_sharpe_ratio m)
                 (m_current_drawdown m);
             risk_level =
               assess_risk_level (m_volatility m) (m_current_drawdown m) (m_sharpe_ratio m)
         in and_then (build_reasoning trend_lower (m_rsi m) pe_numeric (m_volatility m)
                        (m_sharpe_ratio m) (m_current_drawdown m)) (\<lambda>reasoning.
            and_then (build_key_drivers (str_of (m_trend m)) (m_rsi m) pe_numeric
                        (m_sharpe_ratio m) (m_volatility m) (m_current_drawdown m))
              (\<lambda>key_drivers.
            Inr [(''recommendation'', VStr recommendation),
                 (''risk_level'', VStr risk_level),
                 (''reasoning'', VStr reasoning),
                 (''key_drivers'', VList (map VStr key_drivers)),
                 (''final_report'',
                    VStr (report_text recommendation risk_level reasoning key_drivers)),
                 (''llm_used'', VBool False)]))))"

definition generate_offline_summary :: "dict \<Rightarrow> py_error + dict" where
  "generate_offline_summary state = and_then (extract_metrics state) summarise"

text \<open>One field of a result that may be an exception.\<close>

definition result_field :: "py_error + dict \<Rightarrow> string \<Rightarrow> py_error + val" where
  "result_field r k = and_then r (\<lambda>d. dict_item d k)"

section \<open>Series operations of pandas\<close>

text \<open>
  A column is the list of its values in index order. \<^verbatim>\<open>diff()\<close> and
  \<^verbatim>\<open>pct_change()\<close> have no value for the first row and put \<open>nan\<close> there.
\<close>

fun diff :: "fl list \<Rightarrow> fl list" where
  "diff [] = []"
| "diff (x # xs) = NaN # map2 (\<lambda>a b. fl_sub b a) (x # xs) xs"

fun pct_change :: "fl list \<Rightarrow> fl list" where
  "pct_change [] = []"
| "pct_change (x # xs) = NaN # map2 (\<lambda>a b. fl_sub (fl_div b a) (Fin 1)) (x # xs) xs"

text \<open>\<^verbatim>\<open>s.where(cond, other)\<close>: the value where the condition holds, \<open>other\<close> elsewhere.\<close>

definition series_where :: "(fl \<Rightarrow> bool) \<Rightarrow> fl \<Rightarrow> fl list \<Rightarrow> fl list" where
  "series_where cond other xs = map (\<lambda>x. if cond x then x else other) xs"

text \<open>
  \<^verbatim>\<open>s.ewm(alpha=a, adjust=False).mean()\<close>: \<open>y\<^sub>0 = x\<^sub>0\<close> and
  \<open>y\<^sub>t = (1 - a) y\<^sub>t\<^sub>-\<^sub>1 + a x\<^sub>t\<close>. This is the recursion for a series
  without missing values, the only ones it is applied to here. \<^verbatim>\<open>span=n\<close> stands for
  \<open>a = 2 / (n + 1)\<close>.
\<close>

fun ewm_from :: "real \<Rightarrow> fl \<Rightarrow> fl list \<Rightarrow> fl list" where
  "ewm_from a y [] = []"
| "ewm_from a y (x # xs) =
     (let y' = fl_add (fl_mul (Fin (1 - a)) y) (fl_mul (Fin a) x)
      in y' # ewm_from a y' xs)"

fun ewm_mean :: "real \<Rightarrow> fl list \<Rightarrow> fl list" where
  "ewm_mean a [] = []"
| "ewm_mean a (x # xs) = x # ewm_from a x xs"

definition span_alpha :: "nat \<Rightarrow> real" where
  "span_alpha n = 2 / (real n + 1)"

text \<open>
  \<^verbatim>\<open>cumprod()\<close> and \<^verbatim>\<open>cummax()\<close> skip missing values: the result is \<open>nan\<close> at
  their positions and the accumulation goes on after them.
\<close>

fun cumprod_from :: "fl option \<Rightarrow> fl list \<Rightarrow> fl list" where
  "cumprod_from acc [] = []"
| "cumprod_from acc (x # xs) =
     (if x = NaN then NaN # cumprod_from acc xs
      else (let a = (case acc of None \<Rightarrow> x | Some p \<Rightarrow> fl_mul p x)
            in a # cumprod_from (Some a) xs))"

fun cummax_from :: "fl option \<Rightarrow> fl list \<Rightarrow> fl list" where
  "cummax_from acc [] = []"
| "cummax_from acc (x # xs) =
     (if x = NaN then NaN # cummax_from acc xs
      else (let a = (case acc of None \<Rightarrow> x | Some p \<Rightarrow> if fl_lt p x then x else p)
            in a # cummax_from (Some a) xs))"

text \<open>
  \<^verbatim>\<open>min()\<close>, \<^verbatim>\<open>mean()\<close> and \<^verbatim>\<open>std()\<close> (with one degree of freedom removed) skip
  missing values; with too few values left the result is \<open>nan\<close>.
\<close>

definition dropna :: "fl list \<Rightarrow> fl list" where
  "dropna xs = filter (\<lambda>x. x \<noteq> NaN) xs"

definition series_min :: "fl list \<Rightarrow> fl" where
  "series_min xs =
     (case dropna xs of [] \<Rightarrow> NaN
      | y # ys \<Rightarrow> fold (\<lambda>x m. if fl_lt x m then x else m) ys y)"

definition series_sum :: "fl list \<Rightarrow> fl" where
  "series_sum xs = fold (\<lambda>x acc. fl_add acc x) xs (Fin 0)"

definition series_mean :: "fl list \<Rightarrow> fl" where
  "series_mean xs =
     (let ys = dropna xs
      in if ys = [] then NaN else fl_div (series_sum ys) (Fin (real (length ys))))"

definition series_std :: "fl list \<Rightarrow> fl" where
  "series_std xs =
     (let ys = dropna xs; n = length ys
      in if n < 2 then NaN
         else (let mu = fl_div (series_sum ys) (Fin (real n));
                   sq = map (\<lambda>y. fl_mul (fl_sub y mu) (fl_sub y mu)) ys
               in fl_sqrt (fl_div (series_sum sq) (Fin (real (n - 1))))))"

text \<open>\<^verbatim>\<open>s.iloc[-1]\<close>: the last value; an empty series raises \<^verbatim>\<open>IndexError\<close>.\<close>

definition iloc_last :: "'a list \<Rightarrow> py_error + 'a" where
  "iloc_last xs = (if xs = [] then Inl IndexError else Inr (last xs))"

section \<open>The pipeline stages (\<^verbatim>\<open>nodes.py\<close>)\<close>

text \<open>
  What the stages get from outside: the price history and the company information of
  \<^verbatim>\<open>yfinance\<close> (each either raises, with the text of the exception, or answers), the
  environment variable \<^verbatim>\<open>GOOGLE_API_KEY\<close>, what a call of the primary and of the
  fallback language model does (constructing the client included), and the output
  parser of the report schema.

  The two reductions \<^verbatim>\<open>mean()\<close> and \<^verbatim>\<open>std()\<close> of the risk stage are taken from
  outside as well. On doubles their results carry rounding errors that the exact
  values do not determine: for returns that are all equal on the reals, such as those
  of the closes 100, 110, 121, 133.1, \<open>series_std\<close> is exactly zero while pandas
  answers a tiny non-zero double, and the guard \<^verbatim>\<open>std_dev != 0\<close> tests the double.
  So the stage is modelled for whatever the two reductions answer; \<open>series_mean\<close>
  and \<open>series_std\<close> are their exact counterparts.
\<close>

record financial_report =
  fr_recommendation :: string
  fr_reasoning :: string
  fr_key_drivers :: "string list"
  fr_risk_level :: string

record env =
  history :: "string \<Rightarrow> string + (string \<times> real) list"
  info :: "string \<Rightarrow> string + dict"
  google_api_key :: "string option"
  primary_model :: "string + string"
  fallback_model :: "string + string"
  parse :: "string \<Rightarrow> string + financial_report"
  float_mean :: "fl list \<Rightarrow> fl"
  float_std :: "fl list \<Rightarrow> fl"

text \<open>
  \<^verbatim>\<open>str(x)\<close> as the f-strings of the error messages use it. The ticker and the error
  message of a run are strings; the text of other objects is not modelled.
\<close>

fun py_str :: "val \<Rightarrow> string" where
  "py_str (VStr s) = s"
| "py_str VNone = ''None''"
| "py_str (VBool b) = (if b then ''True'' else ''False'')"
| "py_str _ = ''<object>''"

definition data_ingestion_node :: "env \<Rightarrow> dict \<Rightarrow> py_error + dict" where
  "data_ingestion_node e state =
     and_then (dict_item state ''ticker'') (\<lambda>ticker.
     case history e (py_str ticker) of
       Inl exn \<Rightarrow>
         Inr [(''historical_data'', VNone),
              (''error'', VStr (''Error fetching data for ticker '' @ [CHR 0x27] @ py_str ticker
                                 @ [CHR 0x27] @ '': '' @ exn)),
              (''success'', VBool False)]
     | Inr hist \<Rightarrow>
         if hist = [] then
           Inr [(''historical_data'', VNone),
                (''error'', VStr (''No data found for ticker '' @ [CHR 0x27] @ py_str ticker
                                   @ [CHR 0x27]
                                   @ ''. Please verify the ticker symbol is correct.'')),
                (''success'', VBool False)]
         else
           Inr [(''historical_data'', VFrame hist),
                (''start_date'', VStr (fold min (map fst hist) (fst (hd hist)))),
                (''end_date'', VStr (fold max (map fst hist) (fst (hd hist)))),
                (''success'', VBool True)])"

text \<open>
  The check every later stage starts with:
  \<^verbatim>\<open>state.get("error") or state.get("historical_data") is None\<close>.
\<close>

definition has_error :: "dict \<Rightarrow> py_error + bool" where
  "has_error state =
     and_then (truthy (dict_get state ''error'')) (\<lambda>err.
     Inr (err \<or> dict_get state ''historical_data'' = VNone))"

definition error_message :: "dict \<Rightarrow> val" where
  "error_message state = dict_get_or state ''error'' (VStr ''No historical data available'')"

text \<open>\<^verbatim>\<open>df["Close"]\<close> of the stored history; only a data frame has the column.\<close>

fun close_column :: "val \<Rightarrow> py_error + fl list" where
  "close_column (VFrame rows) = Inr (map (\<lambda>r. Fin (snd r)) rows)"
| "close_column _ = Inl AttributeError"

text \<open>The columns the analysis adds, and the last row of the frame (lines 101 to 119).\<close>

definition gain_series :: "fl list \<Rightarrow> fl list" where
  "gain_series close =
     (let delta = diff close
      in ewm_mean (1 / 14) (series_where (\<lambda>d. fl_gt d (Fin 0)) (Fin 0) delta))"

definition loss_series :: "fl list \<Rightarrow> fl list" where
  "loss_series close =
     (let delta = diff close
      in ewm_mean (1 / 14)
           (map fl_neg (series_where (\<lambda>d. fl_lt d (Fin 0)) (Fin 0) delta)))"

definition rsi_series :: "fl list \<Rightarrow> fl list" where
  "rsi_series close =
     (let gain = gain_series close;
          loss = loss_series close;
          rs = map2 fl_div gain loss
      in map (\<lambda>r. fl_sub (Fin 100) (fl_div (Fin 100) (fl_add (Fin 1) r))) rs)"

definition macd_series :: "fl list \<Rightarrow> fl list" where
  "macd_series close =
     (let ema_12 = ewm_mean (span_alpha 12) close;
          ema_26 = ewm_mean (span_alpha 26) close
      in map2 fl_sub ema_12 ema_26)"

definition signal_series :: "fl list \<Rightarrow> fl list" where
  "signal_series close = ewm_mean (span_alpha 9) (macd_series close)"

record latest_row =
  l_close :: fl
  l_rsi :: fl
  l_macd_line :: fl
  l_signal_line :: fl

definition latest_indicators :: "fl list \<Rightarrow> py_error + latest_row" where
  "latest_indicators close =
     and_then (iloc_last (zip close (zip (rsi_series close)
                 (zip (macd_series close) (signal_series close))))) (\<lambda>(c, r, m, s).
     Inr \<lparr>l_close = c, l_rsi = r, l_macd_line = m, l_signal_line = s\<rparr>)"

definition technicals_of :: "latest_row \<Rightarrow> dict" where
  "technicals_of latest =
     [(''current_price'', VNum (l_close latest)),
      (''rsi_14'', VNum (py_round (l_rsi latest) 2)),
      (''macd_line'', VNum (py_round (l_macd_line latest) 2)),
      (''signal_line'', VNum (py_round (l_signal_line latest) 2)),
      (''trend'', VStr (if fl_gt (l_macd_line latest) (l_signal_line latest)
                        then ''Bullish'' else ''Bearish''))]"

definition analysis_node :: "env \<Rightarrow> dict \<Rightarrow> py_error + dict" where
  "analysis_node e state =
     and_then (dict_item state ''ticker'') (\<lambda>ticker.
     and_then (has_error state) (\<lambda>failed.
     if failed then
       Inr [(''fundamental_metrics'', VDict []),
            (''technical_indicators'', VDict []),
            (''error'', error_message state),
            (''success'', VBool False)]
     else
       and_then (dict_item state ''historical_data'') (\<lambda>data.
       case info e (py_str ticker) of
         Inl exn \<Rightarrow> Inl (Exception exn)
       | Inr inf0 \<Rightarrow>
           (let fundamentals =
                  [(''market_cap'', dict_get_or inf0 ''marketCap'' (VStr ''N/A'')),
                   (''pe_ratio'', dict_get_or inf0 ''trailingPE'' (VStr ''N/A'')),
                   (''forward_pe'', dict_get_or inf0 ''forwardPE'' (VStr ''N/A'')),
                   (''sector'', dict_get_or inf0 ''sector'' (VStr ''Unknown''))]
            in and_then (close_column data) (\<lambda>close.
               and_then (latest_indicators close) (\<lambda>latest.
               Inr [(''fundamental_metrics'', VDict fundamentals),
                    (''technical_indicators'', VDict (technicals_of latest))]))))))"

text \<open>The figures of the risk stage before rounding (lines 156 to 175).\<close>

record risk_figures =
  rf_max_drawdown :: fl
  rf_current_drawdown :: fl
  rf_std_dev :: fl
  rf_sharpe_ratio :: fl

definition risk_figures_of :: "env \<Rightarrow> fl list \<Rightarrow> py_error + risk_figures" where
  "risk_figures_of e close =
     (let returns = pct_change close;
          cumulative_returns = cumprod_from None (map (fl_add (Fin 1)) returns);
          running_max = cummax_from None cumulative_returns;
          drawdown = map2 (\<lambda>c r. fl_div (fl_sub c r) r) cumulative_returns running_max;
          max_drawdown = series_min drawdown
      in and_then (iloc_last drawdown) (\<lambda>current_drawdown.
         let risk_free_rate = Fin (4 / 100);
             mean_return = fl_mul (float_mean e returns) (Fin 252);
             std_dev = fl_mul (float_std e returns) (Fin (sqrt 252));
             sharpe_ratio = (if fl_ne std_dev (Fin 0)
                             then fl_div (fl_sub mean_return risk_free_rate) std_dev
                             else Fin 0)
         in Inr \<lparr>rf_max_drawdown = max_drawdown, rf_current_drawdown = current_drawdown,
                 rf_std_dev = std_dev, rf_sharpe_ratio = sharpe_ratio\<rparr>))"

definition risk_metrics_of :: "risk_figures \<Rightarrow> dict" where
  "risk_metrics_of f =
     [(''max_drawdown'', VNum (py_round (rf_max_drawdown f) 4)),
      (''current_drawdown'', VNum (py_round (rf_current_drawdown f) 4)),
      (''volatility'', VNum (py_round (rf_std_dev f) 4)),
      (''sharpe_ratio'', VNum (py_round (rf_sharpe_ratio f) 2))]"

definition risk_node :: "env \<Rightarrow> dict \<Rightarrow> py_error + dict" where
  "risk_node e state =
     and_then (dict_item state ''ticker'') (\<lambda>ticker.
     and_then (has_error state) (\<lambda>failed.
     if failed then
       Inr [(''risk_metrics'', VDict []),
            (''error'', error_message state),
            (''success'', VBool False)]
     else
       and_then (dict_item state ''historical_data'') (\<lambda>data.
       and_then (close_column data) (\<lambda>close.
       and_then (risk_figures_of e close) (\<lambda>figures.
       Inr [(''risk_metrics'', VDict (risk_metrics_of figures))])))))"

text \<open>\<^verbatim>\<open>sub in s\<close> on strings.\<close>

fun starts_with :: "string \<Rightarrow> string \<Rightarrow> bool" where
  "starts_with s [] = True"
| "starts_with [] (c # cs) = False"
| "starts_with (x # xs) (c # cs) = (x = c \<and> starts_with xs cs)"

fun contains :: "string \<Rightarrow> string \<Rightarrow> bool" where
  "contains [] sub = (sub = [])"
| "contains (x # xs) sub = (starts_with (x # xs) sub \<or> contains xs sub)"

text \<open>
  The two places where the synthesis stage hands over to the deterministic summary
  write \<^verbatim>\<open>llm_used = False\<close> into its result once more.
\<close>

definition offline_result :: "dict \<Rightarrow> py_error + dict" where
  "offline_result state =
     and_then (generate_offline_summary state) (\<lambda>r. Inr (dict_set ''llm_used'' (VBool False) r))"

text \<open>
  The second attempt (lines 416 to 427 and 431 to 441): the fallback model answers,
  or the deterministic summary is returned from inside the handler.
\<close>

definition try_fallback :: "env \<Rightarrow> dict \<Rightarrow> py_error + (dict + string)" where
  "try_fallback e state =
     (case fallback_model e of
        Inr content \<Rightarrow> Inr (Inr content)
      | Inl fallback_error \<Rightarrow> and_then (offline_result state) (\<lambda>r. Inr (Inl r)))"

text \<open>
  The body of the outer \<^verbatim>\<open>try\<close> (lines 405 to 461): either it returns a result
  early, or it has a response whose content is parsed into the report; an exception of
  the parser leaves the body.
\<close>

definition model_path :: "env \<Rightarrow> dict \<Rightarrow> py_error + dict" where
  "model_path e state =
     and_then (case primary_model e of
                 Inr content \<Rightarrow> Inr (Inr content)
               | Inl model_error \<Rightarrow>
                   (let error_str = lower model_error
                    in if contains error_str ''404'' \<or> contains error_str ''not found''
                          \<or> contains error_str ''v1beta''
                          \<or> contains error_str ''gemini-1.5-flash''
                       then try_fallback e state
                       else try_fallback e state)) (\<lambda>response.
     case response of
       Inl early \<Rightarrow> Inr early
     | Inr content \<Rightarrow>
         (case parse e content of
            Inl parse_error \<Rightarrow> Inl (Exception parse_error)
          | Inr parsed_report \<Rightarrow>
              Inr [(''recommendation'', VStr (fr_recommendation parsed_report)),
                   (''reasoning'', VStr (fr_reasoning parsed_report)),
                   (''key_drivers'', VList (map VStr (fr_key_drivers parsed_report))),
                   (''risk_level'', VStr (fr_risk_level parsed_report)),
                   (''final_report'',
                      VStr (report_text (fr_recommendation parsed_report)
                              (fr_risk_level parsed_report) (fr_reasoning parsed_report)
                              (fr_key_drivers parsed_report))),
                   (''llm_used'', VBool True)]))"

definition synthesis_node :: "env \<Rightarrow> dict \<Rightarrow> py_error + dict" where
  "synthesis_node e state =
     (let ticker = dict_get_or state ''ticker'' (VStr ''UNKNOWN'')
      in and_then (has_error state) (\<lambda>failed.
         if failed then
           (let error_msg = error_message state
            in Inr [(''recommendation'', VStr ''ERROR''),
                    (''risk_level'', VStr ''Unknown''),
                    (''reasoning'',
                       VStr (''Analysis could not be completed: '' @ py_str error_msg)),
                    (''key_drivers'', VList [error_msg]),
                    (''final_report'',
                       VStr (''**Error:** '' @ py_str error_msg @ [CHR 0x0A, CHR 0x0A]
                             @ ''Analysis could not be completed for ticker ''
                             @ [CHR 0x27] @ py_str ticker @ [CHR 0x27]
                             @ ''. Please verify the ticker symbol is correct and try again.'')),
                    (''error'', error_msg),
                    (''success'', VBool False)])
         else
           and_then (dict_item state ''ticker'') (\<lambda>_.
           and_then (dict_item state ''fundamental_metrics'') (\<lambda>_.
           and_then (dict_item state ''technical_indicators'') (\<lambda>_.
           and_then (dict_item state ''risk_metrics'') (\<lambda>_.
           if google_api_key e = None \<or> google_api_key e = Some [] then offline_result state
           else (case model_path e state of
                   Inl exn \<Rightarrow> offline_result state
                 | Inr r \<Rightarrow> Inr r)))))))"

text \<open>
  The graph of \<^verbatim>\<open>main.py\<close>: the four stages in a row, starting from the state
  \<^verbatim>\<open>{"ticker": ticker}\<close>; what a stage returns overwrites the state key by key.
\<close>

definition merge :: "dict \<Rightarrow> dict \<Rightarrow> dict" where
  "merge state update = fold (\<lambda>(k, v) s. dict_set k v s) update state"

definition apply_node :: "(dict \<Rightarrow> py_error + dict) \<Rightarrow> dict \<Rightarrow> py_error + dict" where
  "apply_node node state = and_then (node state) (\<lambda>update. Inr (merge state update))"

definition run_pipeline :: "env \<Rightarrow> string \<Rightarrow> py_error + dict" where
  "run_pipeline e ticker =
     and_then (apply_node (data_ingestion_node e) [(''ticker'', VStr ticker)]) (\<lambda>s1.
     and_then (apply_node (analysis_node e) s1) (\<lambda>s2.
     and_then (apply_node (risk_node e) s2) (\<lambda>s3.
     apply_node (synthesis_node e) s3)))"

text \<open>A finite value that is not negative.\<close>

fun finite_nonneg :: "fl \<Rightarrow> bool" where
  "finite_nonneg (Fin a) = (0 \<le> a)"
| "finite_nonneg _ = False"

text \<open>The state the synthesis stage receives: the first three stages of the graph.\<close>

definition analysed_state :: "env \<Rightarrow> string \<Rightarrow> py_error + dict" where
  "analysed_state e ticker =
     and_then (apply_node (data_ingestion_node e) [(''ticker'', VStr ticker)]) (\<lambda>s1.
     and_then (apply_node (analysis_node e) s1) (\<lambda>s2.
     apply_node (risk_node e) s2))"

text \<open>
  The state after three stages that all succeeded, as a function of the history, the
  company information, the last row of the analysis and the figures of the risk stage.
\<close>

definition success_state ::
  "string \<Rightarrow> (string \<times> real) list \<Rightarrow> dict \<Rightarrow> latest_row \<Rightarrow> risk_figures \<Rightarrow> dict" where
  "success_state ticker hist inf0 latest figures =
     [(''ticker'', VStr ticker),
      (''historical_data'', VFrame hist),
      (''start_date'', VStr (fold min (map fst hist) (fst (hd hist)))),
      (''end_date'', VStr (fold max (map fst hist) (fst (hd hist)))),
      (''success'', VBool True),
      (''fundamental_metrics'',
         VDict [(''market_cap'', dict_get_or inf0 ''marketCap'' (VStr ''N/A'')),
                (''pe_ratio'', dict_get_or inf0 ''trailingPE'' (VStr ''N/A'')),
                (''forward_pe'', dict_get_or inf0 ''forwardPE'' (VStr ''N/A'')),
                (''sector'', dict_get_or inf0 ''sector'' (VStr ''Unknown''))]),
      (''technical_indicators'', VDict (technicals_of latest)),
      (''risk_metrics'', VDict (risk_metrics_of figures))]"

text \<open>
  The decision framework on the figures as they are computed, before the stages round
  them: what a synthesis working on unrounded values would decide.
\<close>

definition unrounded_recommendation :: "env \<Rightarrow> fl list \<Rightarrow> val \<Rightarrow> py_error + string" where
  "unrounded_recommendation e close pe_ratio =
     and_then (latest_indicators close) (\<lambda>latest.
     and_then (risk_figures_of e close) (\<lambda>figures.
     Inr (recommend
            (lower (if fl_gt (l_macd_line latest) (l_signal_line latest)
                    then ''Bullish'' else ''Bearish''))
            (VNum (l_rsi latest)) (pe_numeric_of pe_ratio)
            (VNum (rf_sharpe_ratio figures)) (VNum (rf_current_drawdown figures)))))"

text \<open>A field of a dict that is itself a field of a result.\<close>

definition result_field2 :: "py_error + dict \<Rightarrow> string \<Rightarrow> string \<Rightarrow> py_error + val" where
  "result_field2 r k1 k2 = and_then (result_field r k1) (\<lambda>v. val_item v k2)"

section \<open>The orchestration variant (\<^verbatim>\<open>agents/\<close>)\<close>

text \<open>
  Arithmetic on arbitrary objects: only numbers take part in arithmetic and in
  comparisons with numbers.
\<close>

definition as_num :: "val \<Rightarrow> py_error + fl" where
  "as_num v = (case num_of v of None \<Rightarrow> Inl TypeError | Some x \<Rightarrow> Inr x)"

text \<open>Division of Python floats: a zero divisor raises.\<close>

definition py_truediv :: "fl \<Rightarrow> fl \<Rightarrow> py_error + fl" where
  "py_truediv a b = (if b = Fin 0 then Inl ZeroDivisionError else Inr (fl_div a b))"

text \<open>
  \<^verbatim>\<open>str(e)\<close> of an exception: a \<^verbatim>\<open>KeyError\<close> prints its key in quotes, an
  exception raised with a message prints the message; the texts of the other built-in
  exceptions are not modelled.
\<close>

fun error_text :: "py_error \<Rightarrow> string" where
  "error_text (KeyError k) = [CHR 0x27] @ k @ [CHR 0x27]"
| "error_text (Exception msg) = msg"
| "error_text AttributeError = ''AttributeError''"
| "error_text TypeError = ''TypeError''"
| "error_text ValueError = ''ValueError''"
| "error_text IndexError = ''IndexError''"
| "error_text ZeroDivisionError = ''division by zero''"

text \<open>
  What the orchestrator gets from outside: the outcome of
  \<^verbatim>\<open>MarketDataAgent.execute\<close> (which reads the network), the running time and the
  timestamp that \<^verbatim>\<open>BaseAgent.run\<close> records for an agent type, and the language-model
  manager.
\<close>

record agent_env =
  market_execute :: "py_error + dict"
  execution_time :: "string \<Rightarrow> fl"
  timestamp :: "string \<Rightarrow> string"
  llm_available :: bool
  llm_summary :: string

text \<open>\<^verbatim>\<open>BaseAgent.run\<close>: the result of \<^verbatim>\<open>execute\<close> with the metadata, or the error record.\<close>

definition run :: "agent_env \<Rightarrow> string \<Rightarrow> string \<Rightarrow> py_error + dict \<Rightarrow> dict" where
  "run e agent_name agent_type executed =
     (case executed of
        Inr result \<Rightarrow>
          merge result
            [(''agent_name'', VStr agent_name),
             (''agent_type'', VStr agent_type),
             (''status'', VStr ''success''),
             (''execution_time'', VNum (execution_time e agent_type)),
             (''timestamp'', VStr (timestamp e agent_type))]
      | Inl exn \<Rightarrow>
          [(''agent_name'', VStr agent_name),
           (''agent_type'', VStr agent_type),
           (''status'', VStr ''error''),
           (''error'', VStr (error_text exn)),
           (''execution_time'', VNum (execution_time e agent_type)),
           (''timestamp'', VStr (timestamp e agent_type))])"

subsection \<open>\<^verbatim>\<open>SentimentAgent\<close>\<close>

definition sentiment_lexicon :: "(string \<times> real) list" where
  "sentiment_lexicon =
     [(''bullish'', 8 / 10), (''buy'', 6 / 10), (''strong'', 5 / 10), (''growth'', 4 / 10),
      (''profit'', 5 / 10), (''gain'', 4 / 10), (''upgrade'', 7 / 10), (''beat'', 6 / 10),
      (''surge'', 7 / 10), (''rally'', 6 / 10), (''bearish'', - (8 / 10)),
      (''sell'', - (6 / 10)), (''weak'', - (5 / 10)), (''decline'', - (4 / 10)),
      (''loss'', - (5 / 10)), (''drop'', - (4 / 10)), (''downgrade'', - (7 / 10)),
      (''miss'', - (6 / 10)), (''plunge'', - (7 / 10)), (''crash'', - (8 / 10))]"

text \<open>
  \<^verbatim>\<open>re.findall(r'\b\w+\b', text)\<close> on ASCII text: the maximal runs of letters, digits
  and underscores.
\<close>

definition is_word_char :: "char \<Rightarrow> bool" where
  "is_word_char c =
     (c \<in> set ''abcdefghijklmnopqrstuvwxyzABCDEFGHIJKLMNOPQRSTUVWXYZ0123456789_'')"

fun find_words :: "string \<Rightarrow> string \<Rightarrow> string list" where
  "find_words cur [] = (if cur = [] then [] else [cur])"
| "find_words cur (c # cs) =
     (if is_word_char c then find_words (cur @ [c]) cs
      else (if cur = [] then [] else [cur]) @ find_words [] cs)"

definition analyze_text :: "string \<Rightarrow> real" where
  "analyze_text text0 =
     (let text1 = lower text0;
          words = find_words [] text1;
          scores = concat (map (\<lambda>w. case map_of sentiment_lexicon w of
                                       None \<Rightarrow> [] | Some v \<Rightarrow> [v]) words)
      in if scores \<noteq> [] then sum_list scores / real (length scores) else 0)"

definition classify_sentiment :: "real \<Rightarrow> string" where
  "classify_sentiment score =
     (if score \<ge> 3 / 10 then ''positive''
      else if score \<le> - (3 / 10) then ''negative''
      else ''neutral'')"

definition get_distribution :: "real list \<Rightarrow> dict" where
  "get_distribution sentiments =
     [(''positive'', VNum (Fin (real (length (filter (\<lambda>s. s > 1 / 10) sentiments))))),
      (''neutral'',
         VNum (Fin (real (length (filter (\<lambda>s. - (1 / 10) \<le> s \<and> s \<le> 1 / 10) sentiments))))),
      (''negative'', VNum (Fin (real (length (filter (\<lambda>s. s < - (1 / 10)) sentiments)))))]"

text \<open>
  The text of one article: \<^verbatim>\<open>article.get('title', '') + ' ' +
  article.get('summary', '')\<close>, which needs a dict holding strings.
\<close>

fun as_str :: "val \<Rightarrow> py_error + string" where
  "as_str (VStr s) = Inr s"
| "as_str _ = Inl TypeError"

definition article_score :: "val \<Rightarrow> py_error + real" where
  "article_score article =
     and_then (val_get_or article ''title'' (VStr [])) (\<lambda>title.
     and_then (val_get_or article ''summary'' (VStr [])) (\<lambda>summary.
     and_then (as_str title) (\<lambda>t.
     and_then (as_str summary) (\<lambda>s.
     Inr (analyze_text (t @ '' '' @ s))))))"

fun article_scores :: "val list \<Rightarrow> py_error + real list" where
  "article_scores [] = Inr []"
| "article_scores (a # as) =
     and_then (article_score a) (\<lambda>x.
     and_then (article_scores as) (\<lambda>xs. Inr (x # xs)))"

text \<open>
  The loop runs over the articles of a list; iterating a string or a dict yields
  strings, which have no \<^verbatim>\<open>get\<close>; other objects cannot be iterated.
\<close>

fun news_items :: "val \<Rightarrow> py_error + val list" where
  "news_items (VList xs) = Inr xs"
| "news_items (VStr s) = Inl AttributeError"
| "news_items (VDict d) = Inl AttributeError"
| "news_items _ = Inl TypeError"

definition sentiment_execute :: "dict \<Rightarrow> py_error + dict" where
  "sentiment_execute input_data =
     (let news_articles = dict_get_or input_data ''news'' (VList [])
      in and_then (truthy news_articles) (\<lambda>some.
         if \<not> some then
           Inr [(''overall_sentiment'', VStr ''neutral''),
                (''sentiment_score'', VNum (Fin 0)),
                (''confidence'', VNum (Fin 0)),
                (''articles_analyzed'', VNum (Fin 0))]
         else
           and_then (news_items news_articles) (\<lambda>articles.
           and_then (article_scores articles) (\<lambda>sentiments.
           let avg_sentiment =
                 (if sentiments \<noteq> [] then sum_list sentiments / real (length sentiments)
                  else 0)
           in Inr [(''overall_sentiment'', VStr (classify_sentiment avg_sentiment)),
                   (''sentiment_score'', VNum (Fin avg_sentiment)),
                   (''confidence'',
                      VNum (py_min (Fin (real (length sentiments) / 10)) (Fin 1))),
                   (''articles_analyzed'', VNum (Fin (real (length sentiments)))),
                   (''distribution'', VDict (get_distribution sentiments))]))))"

subsection \<open>\<^verbatim>\<open>RiskAgent\<close>\<close>

definition assess_agent_risk_level :: "fl \<Rightarrow> string" where
  "assess_agent_risk_level volatility =
     (if fl_gt volatility (Fin (40 / 100)) then ''High''
      else if fl_gt volatility (Fin (25 / 100)) then ''Medium''
      else ''Low'')"

definition estimate_var :: "fl \<Rightarrow> fl" where
  "estimate_var volatility =
     fl_div (fl_mul (Fin (- (165 / 100))) volatility) (Fin (sqrt 252))"

fun is_dict :: "val \<Rightarrow> bool" where
  "is_dict (VDict d) = True"
| "is_dict _ = False"

definition risk_execute :: "dict \<Rightarrow> py_error + dict" where
  "risk_execute input_data =
     (let price_data = dict_get input_data ''price_data''
      in and_then (truthy price_data) (\<lambda>some.
         if \<not> some \<or> \<not> is_dict price_data then
           Inr [(''risk_level'', VStr ''Unknown''), (''confidence'', VNum (Fin 0))]
         else
           and_then (val_get_or price_data ''volatility'' (VNum (Fin 0))) (\<lambda>volatility.
           and_then (as_num volatility) (\<lambda>v.
           Inr [(''volatility'', volatility),
                (''risk_level'', VStr (assess_agent_risk_level v)),
                (''var_95'', VNum (estimate_var v)),
                (''max_drawdown_estimate'', VNum (fl_neg (fl_abs (fl_mul v (Fin 2))))),
                (''confidence'', VNum (Fin (7 / 10)))]))))"

subsection \<open>\<^verbatim>\<open>MasterOrchestrator\<close>\<close>

definition synthesize_results :: "dict \<Rightarrow> py_error + dict" where
  "synthesize_results agent_results =
     (let market_data = dict_get_or agent_results ''market_data'' (VDict [])
      in and_then (val_get_or market_data ''price_data'' (VDict [])) (\<lambda>price_data.
         and_then (val_get_or price_data ''current_price'' VNone) (\<lambda>current_price.
         and_then (val_get_or price_data ''change_percent'' VNone) (\<lambda>price_change.
         let sentiment_data = dict_get_or agent_results ''sentiment'' (VDict [])
         in and_then (val_get_or sentiment_data ''overall_sentiment'' VNone) (\<lambda>sentiment.
            let risk_data = dict_get_or agent_results ''risk'' (VDict [])
            in and_then (val_get_or risk_data ''risk_level'' VNone) (\<lambda>risk_level.
               and_then (val_get_or risk_data ''volatility'' VNone) (\<lambda>volatility.
               Inr [(''current_price'', current_price),
                    (''price_change'', price_change),
                    (''sentiment'', sentiment),
                    (''risk_level'', risk_level),
                    (''volatility'', volatility)])))))))"

definition generate_recommendation :: "dict \<Rightarrow> py_error + string" where
  "generate_recommendation agent_results =
     and_then (val_get_or (dict_get_or agent_results ''sentiment'' (VDict []))
                 ''overall_sentiment'' (VStr ''neutral'')) (\<lambda>sentiment.
     and_then (val_get_or (dict_get_or agent_results ''risk'' (VDict []))
                 ''risk_level'' (VStr ''Medium'')) (\<lambda>risk_level.
     Inr (if sentiment = VStr ''positive'' \<and> risk_level = VStr ''Low'' then ''buy''
          else if sentiment = VStr ''negative'' \<or> risk_level = VStr ''High'' then ''sell''
          else ''hold'')))"

text \<open>The three component scores of \<^verbatim>\<open>_calculate_confidence\<close>.\<close>

definition market_score :: "dict \<Rightarrow> py_error + fl" where
  "market_score agent_results =
     (let md = dict_get_or agent_results ''market_data'' (VDict [])
      in and_then (val_get_or md ''status'' VNone) (\<lambda>status.
         if status = VStr ''success'' then
           and_then (val_item md ''price_data'') (\<lambda>price_data.
           and_then (val_get_or price_data ''current_price'' VNone) (\<lambda>current_price.
           let md_score0 = Fin 0;
               md_score1 = (if current_price \<noteq> VNone then fl_add md_score0 (Fin (3 / 10))
                            else md_score0)
           in and_then (val_get_or price_data ''change_percent'' (VNum (Fin 0))) (\<lambda>change.
              and_then (as_num change) (\<lambda>c.
              let change_pct = fl_div (fl_abs c) (Fin 10);
                  md_score2 = fl_add md_score1 (py_min change_pct (Fin (2 / 10)))
              in and_then (val_item md ''company_info'') (\<lambda>company_info.
                 and_then (val_get_or company_info ''name'' VNone) (\<lambda>name.
                 and_then (truthy name) (\<lambda>named.
                 let md_score3 = (if named then fl_add md_score2 (Fin (2 / 10)) else md_score2)
                 in Inr (py_min md_score3 (Fin 1)))))))))
         else Inr (Fin 0)))"

definition sentiment_score :: "dict \<Rightarrow> py_error + fl" where
  "sentiment_score agent_results =
     (let sa = dict_get_or agent_results ''sentiment'' (VDict [])
      in and_then (val_get_or sa ''status'' VNone) (\<lambda>status.
         if status = VStr ''success'' then
           and_then (val_item sa ''distribution'') (\<lambda>distribution.
           and_then (val_get_or distribution ''positive'' (VNum (Fin 0))) (\<lambda>pos.
           and_then (val_get_or distribution ''negative'' (VNum (Fin 0))) (\<lambda>neg.
           and_then (val_get_or sa ''articles_analyzed'' (VNum (Fin 1))) (\<lambda>analyzed.
           and_then (as_num analyzed) (\<lambda>n.
           let total = py_max n (Fin 1)
           in and_then (as_num pos) (\<lambda>p.
              and_then (as_num neg) (\<lambda>q.
              and_then (py_truediv (fl_sub p q) total) (\<lambda>raw.
              Inr (fl_div (fl_add raw (Fin 1)) (Fin 2))))))))))
         else Inr (Fin 0)))"

fun hashable :: "val \<Rightarrow> bool" where
  "hashable (VList xs) = False"
| "hashable (VDict d) = False"
| "hashable (VFrame rows) = False"
| "hashable _ = True"

definition risk_score :: "dict \<Rightarrow> py_error + fl" where
  "risk_score agent_results =
     (let ra = dict_get_or agent_results ''risk'' (VDict [])
      in and_then (val_get_or ra ''status'' VNone) (\<lambda>status.
         if status = VStr ''success'' then
           and_then (val_get_or ra ''risk_level'' (VStr ''Medium'')) (\<lambda>level.
           if \<not> hashable level then Inl TypeError
           else Inr (if level = VStr ''Low'' then Fin 1
                     else if level = VStr ''Medium'' then Fin (6 / 10)
                     else if level = VStr ''High'' then Fin (3 / 10)
                     else Fin (6 / 10)))
         else Inr (Fin 0)))"

definition calculate_confidence :: "dict \<Rightarrow> py_error + fl" where
  "calculate_confidence agent_results =
     (let baseline = Fin (4 / 10)
      in and_then (market_score agent_results) (\<lambda>market.
         and_then (sentiment_score agent_results) (\<lambda>sentiment.
         and_then (risk_score agent_results) (\<lambda>risk.
         let conf0 = fl_add (fl_add (fl_add (Fin 0) (fl_mul market (Fin (4 / 10))))
                               (fl_mul sentiment (Fin (35 / 100))))
                       (fl_mul risk (Fin (25 / 100)));
             conf1 = fl_add baseline (fl_mul conf0 (fl_sub (Fin 1) baseline))
         in Inr (py_round (py_min (py_max conf1 baseline) (Fin 1)) 2)))))"

text \<open>
  \<^verbatim>\<open>analyze_stock\<close>: the three agents run in a row, then the results are combined;
  an exception on the way is caught, its text stored under \<^verbatim>\<open>error\<close>, and the
  result keeps what had been written until then. (The calls of the state manager only
  keep books.)
\<close>

definition analyze_stock :: "agent_env \<Rightarrow> string \<Rightarrow> string \<Rightarrow> string \<Rightarrow> dict" where
  "analyze_stock e symbol period analysis_type =
     (let result0 = [(''symbol'', VStr symbol),
                     (''period'', VStr period),
                     (''analysis_type'', VStr analysis_type),
                     (''agent_results'', VDict []),
                     (''overall_analysis'', VDict []),
                     (''recommendation'', VStr ''hold''),
                     (''confidence'', VNum (Fin 0))];
          market_result = run e ''Market Data Agent'' ''market_data'' (market_execute e);
          sentiment_input = [(''news'', dict_get_or market_result ''news'' (VList []))];
          sentiment_result =
            run e ''Sentiment Agent'' ''sentiment'' (sentiment_execute sentiment_input);
          risk_input = [(''price_data'', dict_get_or market_result ''price_data'' (VDict []))];
          risk_result = run e ''Risk Agent'' ''risk'' (risk_execute risk_input);
          agent_results = [(''market_data'', VDict market_result),
                           (''sentiment'', VDict sentiment_result),
                           (''risk'', VDict risk_result)];
          result1 = dict_set ''agent_results'' (VDict agent_results) result0
      in case synthesize_results agent_results of
           Inl exn \<Rightarrow> dict_set ''error'' (VStr (error_text exn)) result1
         | Inr overall \<Rightarrow>
             (let result2 = dict_set ''overall_analysis'' (VDict overall) result1
              in case generate_recommendation agent_results of
                   Inl exn \<Rightarrow> dict_set ''error'' (VStr (error_text exn)) result2
                 | Inr recommendation \<Rightarrow>
                     (let result3 = dict_set ''recommendation'' (VStr recommendation) result2
                      in case calculate_confidence agent_results of
                           Inl exn \<Rightarrow> dict_set ''error'' (VStr (error_text exn)) result3
                         | Inr confidence \<Rightarrow>
                             (let result4 = dict_set ''confidence'' (VNum confidence) result3
                              in if llm_available e
                                 then dict_set ''llm_summary'' (VStr (llm_summary e)) result4
                                 else result4))))"

section \<open>Example inputs\<close>

text \<open>
  The first scenario of the testable properties: a bullish trend, RSI 45, P/E 18,
  Sharpe ratio 0.9, current drawdown -0.05, volatility 0.18.
\<close>

definition buy_state :: dict where
  "buy_state =
     [(''ticker'', VStr ''AAPL''),
      (''fundamental_metrics'', VDict [(''pe_ratio'', VNum (Fin 18))]),
      (''technical_indicators'',
         VDict [(''trend'', VStr ''Bullish''), (''rsi_14'', VNum (Fin 45))]),
      (''risk_metrics'',
         VDict [(''current_drawdown'', VNum (Fin (- (5 / 100)))),
                (''volatility'', VNum (Fin (18 / 100))),
                (''sharpe_ratio'', VNum (Fin (9 / 10))),
                (''max_drawdown'', VNum (Fin (- (3 / 10))))])]"

definition buy_metrics :: metrics where
  "buy_metrics =
     \<lparr>m_trend = VStr ''Bullish'', m_rsi = VNum (Fin 45), m_current_price = VNum (Fin 0),
      m_pe_ratio = VNum (Fin 18), m_current_drawdown = VNum (Fin (- (5 / 100))),
      m_volatility = VNum (Fin (18 / 100)), m_sharpe_ratio = VNum (Fin (9 / 10)),
      m_max_drawdown = VNum (Fin (- (3 / 10)))\<rparr>"

definition buy_reasoning :: string where
  "buy_reasoning = ''Technical analysis shows a bullish trend with RSI at 45.00. P/E ratio of 18.00 indicates reasonable valuation. Volatility is 18.00% with a Sharpe ratio of 0.90. Current drawdown is -5.00%.''"

definition buy_key_drivers :: "string list" where
  "buy_key_drivers =
     [''Trend signal: Bullish'', ''RSI (14): 45.00'', ''P/E ratio: 18.00'',
      ''Sharpe ratio: 0.90'', ''Volatility: 18.00%'', ''Current drawdown: -5.00%'']"

definition buy_summary :: dict where
  "buy_summary =
     [(''recommendation'', VStr ''BUY''),
      (''risk_level'', VStr ''Low''),
      (''reasoning'', VStr buy_reasoning),
      (''key_drivers'', VList (map VStr buy_key_drivers)),
      (''final_report'', VStr (report_text ''BUY'' ''Low'' buy_reasoning buy_key_drivers)),
      (''llm_used'', VBool False)]"

definition odd_rsi_state :: dict where
  "odd_rsi_state =
     [(''ticker'', VStr ''AAPL''),
      (''fundamental_metrics'', VDict [(''pe_ratio'', VStr ''N/A'')]),
      (''technical_indicators'',
         VDict [(''trend'', VStr ''Bullish''), (''rsi_14'', VStr ''N/A'')]),
      (''risk_metrics'', VDict [])]"

definition deep_drawdown_state :: dict where
  "deep_drawdown_state =
     [(''ticker'', VStr ''AAPL''),
      (''fundamental_metrics'', VDict [(''pe_ratio'', VStr ''N/A'')]),
      (''technical_indicators'',
         VDict [(''trend'', VStr ''Bearish''), (''rsi_14'', VNum (Fin 40))]),
      (''risk_metrics'',
         VDict [(''current_drawdown'', VNum (Fin (- (1 / 2)))),
                (''volatility'', VNum (Fin (1 / 10))),
                (''sharpe_ratio'', VNum (Fin 0)),
                (''max_drawdown'', VNum (Fin (- (1 / 2))))])]"

text \<open>
  Two runs of the pipeline without an API key and without company information: one on
  a history of a single row, one on three rows whose RSI is 69.996 before rounding.
\<close>

definition single_row_env :: env where
  "single_row_env =
     \<lparr>history = (\<lambda>t. Inr [(''2024-01-02'', 100)]),
      info = (\<lambda>t. Inr []),
      google_api_key = None,
      primary_model = Inl ''unavailable'',
      fallback_model = Inl ''unavailable'',
      parse = (\<lambda>c. Inl ''no JSON''),
      float_mean = series_mean,
      float_std = series_std\<rparr>"

definition three_rows :: "(string \<times> real) list" where
  "three_rows =
     [(''2024-01-02'', 100), (''2024-01-03'', 10979944 / 100000),
      (''2024-01-04'', 10589892 / 100000)]"

definition three_row_env :: env where
  "three_row_env =
     \<lparr>history = (\<lambda>t. Inr three_rows),
      info = (\<lambda>t. Inr []),
      google_api_key = None,
      primary_model = Inl ''unavailable'',
      fallback_model = Inl ''unavailable'',
      parse = (\<lambda>c. Inl ''no JSON''),
      float_mean = series_mean,
      float_std = series_std\<rparr>"

definition single_row_state :: dict where
  "single_row_state =
     [(''ticker'', VStr ''X''),
      (''historical_data'', VFrame [(''2024-01-02'', 100)]),
      (''start_date'', VStr ''2024-01-02''),
      (''end_date'', VStr ''2024-01-02''),
      (''success'', VBool True),
      (''fundamental_metrics'',
         VDict [(''market_cap'', VStr ''N/A''), (''pe_ratio'', VStr ''N/A''),
                (''forward_pe'', VStr ''N/A''), (''sector'', VStr ''Unknown'')]),
      (''technical_indicators'',
         VDict [(''current_price'', VNum (Fin 100)), (''rsi_14'', VNum NaN),
                (''macd_line'', VNum (Fin 0)), (''signal_line'', VNum (Fin 0)),
                (''trend'', VStr ''Bearish'')]),
      (''risk_metrics'',
         VDict [(''max_drawdown'', VNum NaN), (''current_drawdown'', VNum NaN),
                (''volatility'', VNum NaN), (''sharpe_ratio'', VNum NaN)])]"

text \<open>The deterministic summary of the run on a single row.\<close>

definition single_row_reasoning :: string where
  "single_row_reasoning = ''Technical analysis shows a bearish trend with RSI at nan. Valuation metrics are not available. Volatility is nan% with a Sharpe ratio of nan. Current drawdown is nan%.''"

definition single_row_summary_dict :: dict where
  "single_row_summary_dict =
     [(''recommendation'', VStr ''HOLD''),
      (''risk_level'', VStr ''Medium''),
      (''reasoning'', VStr single_row_reasoning),
      (''key_drivers'',
         VList [VStr ''Trend signal: Bearish'', VStr ''RSI (14): nan'',
                VStr ''Sharpe ratio: nan'', VStr ''Volatility: nan%'',
                VStr ''Current drawdown: nan%'']),
      (''final_report'',
         VStr (report_text ''HOLD'' ''Medium'' single_row_reasoning
                 [''Trend signal: Bearish'', ''RSI (14): nan'', ''Sharpe ratio: nan'',
                  ''Volatility: nan%'', ''Current drawdown: nan%''])),
      (''llm_used'', VBool False)]"

text \<open>An environment whose primary model answers with a report that parses.\<close>

definition answering_env :: env where
  "answering_env =
     \<lparr>history = (\<lambda>t. Inr [(''2024-01-02'', 100)]),
      info = (\<lambda>t. Inr []),
      google_api_key = Some ''key'',
      primary_model = Inr ''{recommendation: HOLD}'',
      fallback_model = Inl ''unavailable'',
      parse = (\<lambda>c. Inr \<lparr>fr_recommendation = ''HOLD'', fr_reasoning = ''Flat.'',
                          fr_key_drivers = [''RSI of 50'', ''MACD of 0'', ''One row''],
                          fr_risk_level = ''Medium''\<rparr>),
      float_mean = series_mean,
      float_std = series_std\<rparr>"

text \<open>
  An environment whose primary model answers with a report that parses and whose
  recommendation is the word ERROR.
\<close>

definition error_answer_env :: env where
  "error_answer_env =
     \<lparr>history = (\<lambda>t. Inr [(''2024-01-02'', 100)]),
      info = (\<lambda>t. Inr []),
      google_api_key = Some ''key'',
      primary_model = Inr ''{recommendation: ERROR}'',
      fallback_model = Inl ''unavailable'',
      parse = (\<lambda>c. Inr \<lparr>fr_recommendation = ''ERROR'', fr_reasoning = ''Flat.'',
                          fr_key_drivers = [''RSI of 50'', ''MACD of 0'', ''One row''],
                          fr_risk_level = ''Medium''\<rparr>),
      float_mean = series_mean,
      float_std = series_std\<rparr>"

text \<open>A run whose data source has no rows for the ticker.\<close>

definition no_data_env :: env where
  "no_data_env =
     \<lparr>history = (\<lambda>t. Inr []),
      info = (\<lambda>t. Inr []),
      google_api_key = Some ''key'',
      primary_model = Inr ''{}'',
      fallback_model = Inr ''{}'',
      parse = (\<lambda>c. Inl ''no JSON''),
      float_mean = series_mean,
      float_std = series_std\<rparr>"

text \<open>
  A result of the market-data agent with a price, a company name and no news, and the
  environment of a run of the orchestrator on it.
\<close>

definition quiet_market :: dict where
  "quiet_market =
     [(''symbol'', VStr ''AAPL''),
      (''price_data'',
         VDict [(''current_price'', VNum (Fin 150)),
                (''previous_close'', VNum (Fin 147)),
                (''change_percent'', VNum (Fin (300 / 147)))]),
      (''company_info'', VDict [(''symbol'', VStr ''AAPL''), (''name'', VStr ''Apple Inc.'')]),
      (''news'', VList []),
      (''confidence'', VNum (Fin (8 / 10)))]"

definition quiet_env :: agent_env where
  "quiet_env =
     \<lparr>market_execute = Inr quiet_market,
      execution_time = (\<lambda>a. Fin 1),
      timestamp = (\<lambda>a. ''2024-01-02T00:00:00''),
      llm_available = False,
      llm_summary = []\<rparr>"

text \<open>The same with two articles.\<close>

definition news_env :: agent_env where
  "news_env =
     \<lparr>market_execute =
        Inr (dict_set ''news''
               (VList [VDict [(''title'', VStr ''Stock surges on strong earnings'')],
                       VDict [(''title'', VStr ''Shares rally as profit beat forecasts'')]])
               quiet_market),
      execution_time = (\<lambda>a. Fin 1),
      timestamp = (\<lambda>a. ''2024-01-02T00:00:00''),
      llm_available = False,
      llm_summary = []\<rparr>"

text \<open>
  Agent results whose sentiment entry counts more positive articles than were
  analysed.
\<close>

definition inflated_results :: dict where
  "inflated_results =
     [(''sentiment'',
         VDict [(''status'', VStr ''success''),
                (''distribution'', VDict [(''positive'', VNum (Fin 10)),
                                          (''negative'', VNum (Fin 0))]),
                (''articles_analyzed'', VNum (Fin 1))])]"

text \<open>The agent results that \<^verbatim>\<open>analyze_stock\<close> hands to the aggregator.\<close>

definition agent_results_of :: "agent_env \<Rightarrow> dict" where
  "agent_results_of e =
     (let market_result = run e ''Market Data Agent'' ''market_data'' (market_execute e);
          sentiment_input = [(''news'', dict_get_or market_result ''news'' (VList []))];
          sentiment_result =
            run e ''Sentiment Agent'' ''sentiment'' (sentiment_execute sentiment_input);
          risk_input = [(''price_data'', dict_get_or market_result ''price_data'' (VDict []))];
          risk_result = run e ''Risk Agent'' ''risk'' (risk_execute risk_input)
      in [(''market_data'', VDict market_result),
          (''sentiment'', VDict sentiment_result),
          (''risk'', VDict risk_result)])"

section \<open>Properties\<close>

subsection \<open>Auxiliary facts\<close>

lemma fl_ge_Fin [simp]: "fl_ge (Fin a) (Fin b) = (b \<le> a)"
  by (auto simp: fl_ge_def)

lemma fl_gt_Fin [simp]: "fl_gt (Fin a) (Fin b) = (b < a)"
  by (simp add: fl_gt_def)

lemma and_then_Inr: "and_then m f = Inr y \<Longrightarrow> \<exists>x. m = Inr x \<and> f x = Inr y"
  by (cases m) (simp_all add: and_then_def)

lemma and_then_simps [simp]:
  "and_then (Inr x) f = f x" "and_then (Inl e) f = Inl e"
  by (simp_all add: and_then_def)

lemma extract_buy_state: "extract_metrics buy_state = Inr buy_metrics"
  by (simp add: extract_metrics_def buy_state_def buy_metrics_def dict_get_or_def)

lemma fixed2_examples:
  "fixed2 45 = ''45.00''" "fixed2 18 = ''18.00''" "fixed2 (9 / 10) = ''0.90''"
  "fixed2 (- 5) = ''-5.00''"
  by (simp_all add: fixed2_def round_half_even_def Let_def digits_of.simps digit_char_def)

lemma lower_Bullish: "lower ''Bullish'' = ''bullish''"
  by (simp add: lower_def lower_char_def)

lemma summarise_buy_metrics: "summarise buy_metrics = Inr buy_summary"
  by (simp add: summarise_def buy_metrics_def buy_summary_def buy_reasoning_def
      buy_key_drivers_def build_key_drivers_def build_reasoning_def pe_numeric_of_def
      lower_Bullish fixed2_examples recommend_def assess_risk_level_def is_num_lt_def
      is_num_ge_def is_num_gt_def pe_reasonable_of_def Let_def)

lemma buy_state_summary: "generate_offline_summary buy_state = Inr buy_summary"
  by (simp add: generate_offline_summary_def extract_buy_state summarise_buy_metrics)

lemma generate_offline_summary_Inr:
  assumes "generate_offline_summary state = Inr r"
  obtains m where "extract_metrics state = Inr m" "summarise m = Inr r"
  using assms unfolding generate_offline_summary_def by (auto dest: and_then_Inr)

lemma format_2f_Inr: "format_2f v = Inr s \<Longrightarrow> \<exists>x. num_of v = Some x \<and> s = fmt_2f x"
  by (cases v) auto

lemma summarise_Inr:
  assumes "summarise m = Inr r"
  obtains trend_lower reasoning kd where
    "str_lower (m_trend m) = Inr trend_lower"
    "build_reasoning trend_lower (m_rsi m) (pe_numeric_of (m_pe_ratio m)) (m_volatility m)
       (m_sharpe_ratio m) (m_current_drawdown m) = Inr reasoning"
    "build_key_drivers (str_of (m_trend m)) (m_rsi m) (pe_numeric_of (m_pe_ratio m))
       (m_sharpe_ratio m) (m_volatility m) (m_current_drawdown m) = Inr kd"
    "r = [(''recommendation'',
             VStr (recommend trend_lower (m_rsi m) (pe_numeric_of (m_pe_ratio m)) (m_sharpe_ratio m)
                     (m_current_drawdown m))),
          (''risk_level'',
             VStr (assess_risk_level (m_volatility m) (m_current_drawdown m)
                     (m_sharpe_ratio m))),
          (''reasoning'', VStr reasoning),
          (''key_drivers'', VList (map VStr kd)),
          (''final_report'',
             VStr (report_text
                     (recommend trend_lower (m_rsi m) (pe_numeric_of (m_pe_ratio m)) (m_sharpe_ratio m)
                        (m_current_drawdown m))
                     (assess_risk_level (m_volatility m) (m_current_drawdown m)
                        (m_sharpe_ratio m))
                     reasoning kd)),
          (''llm_used'', VBool False)]"
  using assms
  by (auto simp: summarise_def and_then_def Let_def split: sum.splits)

lemma pe_numeric_of_eq: "pe_numeric_of v = num_of v"
  by (cases v) (simp_all add: pe_numeric_of_def)

subsection \<open>The risk level\<close>

text \<open>
  Claim C3. For numbers as volatility, current drawdown and Sharpe ratio the risk level
  is found by the ordered rules, the first that matches winning: volatility at least
  0.35 gives High; otherwise a current drawdown below -0.30 gives Extreme; otherwise a
  volatility below 0.20 with a Sharpe ratio of at least 0.7 gives Low; otherwise Medium
  (whether the volatility is below 0.25 or not). A volatility of exactly 0.35 gives
  High, a volatility of 0.1999999 with a Sharpe ratio of at least 0.7 and a current
  drawdown of at least -0.30 gives Low, and the risk level of the summary is this
  classification of the metrics in the state.
\<close>

theorem risk_level_ordered_rules:
  "assess_risk_level (VNum v) (VNum d) (VNum s) =
     (if fl_ge v (Fin (35 / 100)) then ''High''
      else if fl_lt d (Fin (- (30 / 100))) then ''Extreme''
      else if fl_lt v (Fin (20 / 100)) \<and> fl_ge s (Fin (7 / 10)) then ''Low''
      else if fl_lt v (Fin (25 / 100)) then ''Medium''
      else ''Medium'')
   \<and> assess_risk_level (VNum (Fin (35 / 100))) d' s' = ''High''
   \<and> (7 / 10 \<le> y \<and> - (30 / 100) \<le> x \<longrightarrow>
        assess_risk_level (VNum (Fin (1999999 / 10000000))) (VNum (Fin x)) (VNum (Fin y))
          = ''Low'')
   \<and> (generate_offline_summary state = Inr r \<longrightarrow>
        (\<exists>m. extract_metrics state = Inr m \<and>
           map_of r ''risk_level'' =
             Some (VStr (assess_risk_level (m_volatility m) (m_current_drawdown m)
                           (m_sharpe_ratio m)))))"
proof -
  have link: "\<exists>m. extract_metrics state = Inr m \<and>
           map_of r ''risk_level'' =
             Some (VStr (assess_risk_level (m_volatility m) (m_current_drawdown m)
                           (m_sharpe_ratio m)))"
    if "generate_offline_summary state = Inr r"
  proof -
    from that obtain m where m: "extract_metrics state = Inr m" and s: "summarise m = Inr r"
      by (rule generate_offline_summary_Inr)
    from s show ?thesis using m by (elim summarise_Inr) simp
  qed
  show ?thesis
    using link
    by (simp add: assess_risk_level_def is_num_ge_def is_num_lt_def)
qed

text \<open>The rules at the metrics of the state \<open>buy_state\<close>.\<close>

theorem risk_level_ordered_rules_witness:
  "(7 / 10 \<le> (9 / 10 :: real) \<and> - (30 / 100) \<le> (- (5 / 100) :: real))
   \<and> assess_risk_level (VNum (Fin (1999999 / 10000000))) (VNum (Fin (- (5 / 100))))
         (VNum (Fin (9 / 10))) = ''Low''
   \<and> generate_offline_summary buy_state = Inr buy_summary
   \<and> (\<exists>m. extract_metrics buy_state = Inr m \<and>
         map_of buy_summary ''risk_level'' =
           Some (VStr (assess_risk_level (m_volatility m) (m_current_drawdown m)
                         (m_sharpe_ratio m))))"
  using risk_level_ordered_rules [where x = "- (5 / 100)" and y = "9 / 10"
      and state = buy_state and r = buy_summary]
    buy_state_summary
  by simp

text \<open>
  Claim C4 says that no input makes the classifier answer Extreme. The first rule
  tests the volatility and the second the current drawdown, so a volatility of 0.10
  with a current drawdown of -0.50 is classified Extreme.
\<close>

theorem extreme_reached_counterexample:
  "result_field (generate_offline_summary deep_drawdown_state) ''risk_level''
     = Inr (VStr ''Extreme'')"
  by (simp add: deep_drawdown_state_def generate_offline_summary_def extract_metrics_def
      summarise_def dict_get_or_def build_key_drivers_def build_reasoning_def
      pe_numeric_of_def lower_def lower_char_def result_field_def dict_item_def
      assess_risk_level_def is_num_lt_def is_num_ge_def Let_def)

text \<open>
  Claim C4, amended. The classifier answers Extreme exactly when the volatility is not
  a number of at least 0.35 and the current drawdown is a number below -0.30.
\<close>

theorem extreme_exactly_when:
  "(assess_risk_level volatility current_drawdown sharpe_ratio = ''Extreme'') =
     (\<not> (\<exists>v. num_of volatility = Some v \<and> fl_ge v (Fin (35 / 100))) \<and>
      (\<exists>d. num_of current_drawdown = Some d \<and> fl_lt d (Fin (- (30 / 100)))))"
  by (auto simp: assess_risk_level_def is_num_ge_def is_num_lt_def split: option.splits)


subsection \<open>The decision framework\<close>

lemma build_reasoning_Inr:
  "build_reasoning trend_lower rsi pe vol sh dd = Inr reasoning \<Longrightarrow> \<exists>x. num_of rsi = Some x"
  unfolding build_reasoning_def by (auto dest!: and_then_Inr format_2f_Inr)

text \<open>
  Claim C1 takes an RSI that is not a number as acceptable. With a bullish trend, no
  P/E ratio and the string \<^verbatim>\<open>N/A\<close> as RSI the framework does not decide BUY (the
  type check fails, so the decision is HOLD), and the summary is not even returned:
  formatting the RSI raises \<^verbatim>\<open>ValueError\<close>.
\<close>

theorem decision_framework_counterexample:
  "generate_offline_summary odd_rsi_state = Inl ValueError
   \<and> recommend ''bullish'' (VStr ''N/A'') None (VNum (Fin 0)) (VNum (Fin 0)) = ''HOLD''"
  by (simp add: odd_rsi_state_def generate_offline_summary_def extract_metrics_def
      summarise_def dict_get_or_def build_reasoning_def pe_numeric_of_def lower_Bullish
      recommend_def is_num_lt_def is_num_ge_def is_num_gt_def pe_reasonable_of_def Let_def)

text \<open>
  Claim C1, amended. The decision is BUY exactly when the trend is bullish (compared in
  lower case), the RSI is a number below 70, and the P/E ratio is not a number or is
  below 30, or the Sharpe ratio is a number of at least 0.5; it is SELL exactly when
  the trend is not bullish and the P/E ratio is a number not below 30 or the current
  drawdown is a number below -0.15; it is HOLD otherwise. A summary that is returned
  carries this decision for the metrics of the state, whose trend is then a string and
  whose RSI is a number; an RSI missing from the indicators counts as 50.
\<close>

theorem decision_framework:
  "((recommend trend_lower rsi pe sh dd = ''BUY'') =
      (trend_lower = ''bullish'' \<and> (\<exists>x. num_of rsi = Some x \<and> fl_lt x (Fin 70)) \<and>
       ((pe = None \<or> (\<exists>p. pe = Some p \<and> fl_lt p (Fin 30))) \<or>
        (\<exists>s. num_of sh = Some s \<and> fl_ge s (Fin (1 / 2))))))
   \<and> ((recommend trend_lower rsi pe sh dd = ''SELL'') =
      (trend_lower \<noteq> ''bullish'' \<and>
       ((\<exists>p. pe = Some p \<and> \<not> fl_lt p (Fin 30)) \<or>
        (\<exists>d. num_of dd = Some d \<and> fl_lt d (Fin (- (15 / 100)))))))
   \<and> ((recommend trend_lower rsi pe sh dd = ''HOLD'') =
      (recommend trend_lower rsi pe sh dd \<noteq> ''BUY'' \<and> recommend trend_lower rsi pe sh dd \<noteq> ''SELL''))
   \<and> (generate_offline_summary state = Inr r \<longrightarrow>
        (\<exists>m t x. extract_metrics state = Inr m \<and> m_trend m = VStr t \<and>
           num_of (m_rsi m) = Some x \<and>
           map_of r ''recommendation'' =
             Some (VStr (recommend (lower t) (m_rsi m) (num_of (m_pe_ratio m))
                           (m_sharpe_ratio m) (m_current_drawdown m)))))
   \<and> (extract_metrics state = Inr m' \<and>
        dict_get_or state ''technical_indicators'' (VDict []) = VDict technicals \<and>
        map_of technicals ''rsi_14'' = None \<longrightarrow> m_rsi m' = VNum (Fin 50))"
proof -
  have buy: "(recommend trend_lower rsi pe sh dd = ''BUY'') =
      (trend_lower = ''bullish'' \<and> (\<exists>x. num_of rsi = Some x \<and> fl_lt x (Fin 70)) \<and>
       ((pe = None \<or> (\<exists>p. pe = Some p \<and> fl_lt p (Fin 30))) \<or>
        (\<exists>s. num_of sh = Some s \<and> fl_ge s (Fin (1 / 2)))))"
    by (auto simp: recommend_def is_num_lt_def is_num_ge_def pe_reasonable_of_def Let_def
        split: option.splits)
  have sell: "(recommend trend_lower rsi pe sh dd = ''SELL'') =
      (trend_lower \<noteq> ''bullish'' \<and>
       ((\<exists>p. pe = Some p \<and> \<not> fl_lt p (Fin 30)) \<or>
        (\<exists>d. num_of dd = Some d \<and> fl_lt d (Fin (- (15 / 100))))))"
    by (auto simp: recommend_def is_num_lt_def is_num_ge_def pe_reasonable_of_def Let_def
        split: option.splits)
  have hold: "(recommend trend_lower rsi pe sh dd = ''HOLD'') =
      (recommend trend_lower rsi pe sh dd \<noteq> ''BUY'' \<and> recommend trend_lower rsi pe sh dd \<noteq> ''SELL'')"
    by (simp add: recommend_def Let_def)
  have link: "\<exists>m t x. extract_metrics state = Inr m \<and> m_trend m = VStr t \<and>
           num_of (m_rsi m) = Some x \<and>
           map_of r ''recommendation'' =
             Some (VStr (recommend (lower t) (m_rsi m) (num_of (m_pe_ratio m))
                           (m_sharpe_ratio m) (m_current_drawdown m)))"
    if "generate_offline_summary state = Inr r"
  proof -
    from that obtain m where m: "extract_metrics state = Inr m" and s: "summarise m = Inr r"
      by (rule generate_offline_summary_Inr)
    from s obtain trend_lower' reasoning kd where
      trend_lower: "str_lower (m_trend m) = Inr trend_lower'" and
      re: "build_reasoning trend_lower' (m_rsi m) (pe_numeric_of (m_pe_ratio m)) (m_volatility m)
             (m_sharpe_ratio m) (m_current_drawdown m) = Inr reasoning" and
      r: "map_of r ''recommendation'' =
            Some (VStr (recommend trend_lower' (m_rsi m) (pe_numeric_of (m_pe_ratio m))
                          (m_sharpe_ratio m) (m_current_drawdown m)))"
      by (elim summarise_Inr) simp
    from trend_lower obtain t where t: "m_trend m = VStr t" "trend_lower' = lower t"
      by (cases "m_trend m") auto
    from re obtain x where x: "num_of (m_rsi m) = Some x"
      by (auto dest: build_reasoning_Inr)
    show ?thesis
      using m t x r by (simp add: pe_numeric_of_eq)
  qed
  have dflt: "m_rsi m' = VNum (Fin 50)"
    if "extract_metrics state = Inr m'"
      "dict_get_or state ''technical_indicators'' (VDict []) = VDict technicals"
      "map_of technicals ''rsi_14'' = None"
    using that
    by (auto simp: extract_metrics_def Let_def dict_get_or_def dest!: and_then_Inr)
  show ?thesis
    using buy sell hold link dflt by blast
qed

text \<open>The decision at \<open>buy_state\<close>, and the default RSI of the empty state.\<close>

theorem decision_framework_witness:
  "generate_offline_summary buy_state = Inr buy_summary
   \<and> (\<exists>m t x. extract_metrics buy_state = Inr m \<and> m_trend m = VStr t \<and>
         num_of (m_rsi m) = Some x \<and>
         map_of buy_summary ''recommendation'' =
           Some (VStr (recommend (lower t) (m_rsi m) (num_of (m_pe_ratio m))
                         (m_sharpe_ratio m) (m_current_drawdown m))))
   \<and> extract_metrics [] = Inr \<lparr>m_trend = VStr ''Unknown'', m_rsi = VNum (Fin 50),
         m_current_price = VNum (Fin 0), m_pe_ratio = VStr ''N/A'',
         m_current_drawdown = VNum (Fin 0), m_volatility = VNum (Fin 0),
         m_sharpe_ratio = VNum (Fin 0), m_max_drawdown = VNum (Fin 0)\<rparr>
   \<and> dict_get_or [] ''technical_indicators'' (VDict []) = VDict []
   \<and> map_of ([] :: dict) ''rsi_14'' = None
   \<and> m_rsi \<lparr>m_trend = VStr ''Unknown'', m_rsi = VNum (Fin 50),
         m_current_price = VNum (Fin 0), m_pe_ratio = VStr ''N/A'',
         m_current_drawdown = VNum (Fin 0), m_volatility = VNum (Fin 0),
         m_sharpe_ratio = VNum (Fin 0), m_max_drawdown = VNum (Fin 0)\<rparr> = VNum (Fin 50)"
  using decision_framework [where state = buy_state and r = buy_summary]
    buy_state_summary
  by (simp add: extract_metrics_def dict_get_or_def)

subsection \<open>The key drivers\<close>

text \<open>
  Claim C7 caps the key drivers at five entries. Nothing truncates the list: with a
  P/E ratio and the three risk metrics at hand it has six entries.
\<close>

theorem key_drivers_counterexample:
  "result_field (generate_offline_summary buy_state) ''key_drivers'' =
     Inr (VList [VStr ''Trend signal: Bullish'', VStr ''RSI (14): 45.00'',
                 VStr ''P/E ratio: 18.00'', VStr ''Sharpe ratio: 0.90'',
                 VStr ''Volatility: 18.00%'', VStr ''Current drawdown: -5.00%''])"
  by (simp add: buy_state_summary buy_summary_def buy_key_drivers_def result_field_def
      dict_item_def)

text \<open>
  Claim C7, amended. The key drivers of a returned summary are, in this order, the
  trend, the RSI, the P/E ratio if it is a number, the Sharpe ratio, the volatility and
  the current drawdown, each of the last three if it is a number; the list has between
  2 and 6 entries and is not truncated, and with the three risk metrics being numbers
  it has 5 entries without a P/E ratio and 6 with one.
\<close>

theorem key_drivers_order:
  assumes "generate_offline_summary state = Inr r"
  shows "\<exists>m t x kd. extract_metrics state = Inr m \<and> m_trend m = VStr t \<and>
           num_of (m_rsi m) = Some x \<and>
           map_of r ''key_drivers'' = Some (VList (map VStr kd)) \<and>
           kd = [''Trend signal: '' @ t, ''RSI (14): '' @ fmt_2f x]
                @ (case num_of (m_pe_ratio m) of
                     Some p \<Rightarrow> [''P/E ratio: '' @ fmt_2f p] | None \<Rightarrow> [])
                @ (case num_of (m_sharpe_ratio m) of
                     Some s \<Rightarrow> [''Sharpe ratio: '' @ fmt_2f s] | None \<Rightarrow> [])
                @ (case num_of (m_volatility m) of
                     Some v \<Rightarrow> [''Volatility: '' @ fmt_2pct v] | None \<Rightarrow> [])
                @ (case num_of (m_current_drawdown m) of
                     Some d \<Rightarrow> [''Current drawdown: '' @ fmt_2pct d] | None \<Rightarrow> []) \<and>
           2 \<le> length kd \<and> length kd \<le> 6 \<and>
           (num_of (m_sharpe_ratio m) \<noteq> None \<and> num_of (m_volatility m) \<noteq> None \<and>
            num_of (m_current_drawdown m) \<noteq> None \<longrightarrow>
              length kd = (if num_of (m_pe_ratio m) = None then 5 else 6))"
proof -
  from assms obtain m where m: "extract_metrics state = Inr m" and s: "summarise m = Inr r"
    by (rule generate_offline_summary_Inr)
  from s obtain trend_lower' kd where
    trend_lower: "str_lower (m_trend m) = Inr trend_lower'" and
    kd: "build_key_drivers (str_of (m_trend m)) (m_rsi m) (pe_numeric_of (m_pe_ratio m))
           (m_sharpe_ratio m) (m_volatility m) (m_current_drawdown m) = Inr kd" and
    r: "map_of r ''key_drivers'' = Some (VList (map VStr kd))"
    by (elim summarise_Inr) simp
  from trend_lower obtain t where t: "m_trend m = VStr t"
    by (cases "m_trend m") auto
  from kd obtain x where x: "num_of (m_rsi m) = Some x" and
    kd_eq: "kd = [''Trend signal: '' @ t, ''RSI (14): '' @ fmt_2f x]
                @ (case num_of (m_pe_ratio m) of
                     Some p \<Rightarrow> [''P/E ratio: '' @ fmt_2f p] | None \<Rightarrow> [])
                @ (case num_of (m_sharpe_ratio m) of
                     Some s \<Rightarrow> [''Sharpe ratio: '' @ fmt_2f s] | None \<Rightarrow> [])
                @ (case num_of (m_volatility m) of
                     Some v \<Rightarrow> [''Volatility: '' @ fmt_2pct v] | None \<Rightarrow> [])
                @ (case num_of (m_current_drawdown m) of
                     Some d \<Rightarrow> [''Current drawdown: '' @ fmt_2pct d] | None \<Rightarrow> [])"
    unfolding build_key_drivers_def
    by (auto simp: t pe_numeric_of_eq dest!: and_then_Inr format_2f_Inr)
  have len: "2 \<le> length kd" "length kd \<le> 6"
    "num_of (m_sharpe_ratio m) \<noteq> None \<and> num_of (m_volatility m) \<noteq> None \<and>
       num_of (m_current_drawdown m) \<noteq> None \<longrightarrow>
         length kd = (if num_of (m_pe_ratio m) = None then 5 else 6)"
    unfolding kd_eq by (auto split: option.splits)
  show ?thesis
    using m t x r kd_eq len by blast
qed

text \<open>The key drivers at \<open>buy_state\<close>.\<close>

theorem key_drivers_order_witness:
  "generate_offline_summary buy_state = Inr buy_summary
   \<and> (\<exists>m t x kd. extract_metrics buy_state = Inr m \<and> m_trend m = VStr t \<and>
           num_of (m_rsi m) = Some x \<and>
           map_of buy_summary ''key_drivers'' = Some (VList (map VStr kd)) \<and>
           kd = [''Trend signal: '' @ t, ''RSI (14): '' @ fmt_2f x]
                @ (case num_of (m_pe_ratio m) of
                     Some p \<Rightarrow> [''P/E ratio: '' @ fmt_2f p] | None \<Rightarrow> [])
                @ (case num_of (m_sharpe_ratio m) of
                     Some s \<Rightarrow> [''Sharpe ratio: '' @ fmt_2f s] | None \<Rightarrow> [])
                @ (case num_of (m_volatility m) of
                     Some v \<Rightarrow> [''Volatility: '' @ fmt_2pct v] | None \<Rightarrow> [])
                @ (case num_of (m_current_drawdown m) of
                     Some d \<Rightarrow> [''Current drawdown: '' @ fmt_2pct d] | None \<Rightarrow> []) \<and>
           2 \<le> length kd \<and> length kd \<le> 6 \<and>
           (num_of (m_sharpe_ratio m) \<noteq> None \<and> num_of (m_volatility m) \<noteq> None \<and>
            num_of (m_current_drawdown m) \<noteq> None \<longrightarrow>
              length kd = (if num_of (m_pe_ratio m) = None then 5 else 6)))"
  using key_drivers_order [OF buy_state_summary] buy_state_summary
  by simp

subsection \<open>The states of a run\<close>

lemma length_diff [simp]: "length (diff xs) = length xs"
  by (cases xs) simp_all

lemma length_pct_change [simp]: "length (pct_change xs) = length xs"
  by (cases xs) simp_all

lemma length_ewm_from [simp]: "length (ewm_from a y xs) = length xs"
  by (induction xs arbitrary: y) (simp_all add: Let_def)

lemma length_ewm_mean [simp]: "length (ewm_mean a xs) = length xs"
  by (cases xs) simp_all

lemma length_cumprod_from [simp]: "length (cumprod_from acc xs) = length xs"
  by (induction xs arbitrary: acc) (simp_all add: Let_def)

lemma length_cummax_from [simp]: "length (cummax_from acc xs) = length xs"
  by (induction xs arbitrary: acc) (simp_all add: Let_def)

lemma length_series_where [simp]: "length (series_where c other xs) = length xs"
  by (simp add: series_where_def)

lemma length_gain_series [simp]: "length (gain_series xs) = length xs"
  by (simp add: gain_series_def)

lemma length_loss_series [simp]: "length (loss_series xs) = length xs"
  by (simp add: loss_series_def)

lemma length_rsi_series [simp]: "length (rsi_series xs) = length xs"
  by (simp add: rsi_series_def)

lemma length_macd_series [simp]: "length (macd_series xs) = length xs"
  by (simp add: macd_series_def)

lemma length_signal_series [simp]: "length (signal_series xs) = length xs"
  by (simp add: signal_series_def)

lemma last_zip:
  "length xs = length ys \<Longrightarrow> xs \<noteq> [] \<Longrightarrow> last (zip xs ys) = (last xs, last ys)"
  by (induction xs ys rule: list_induct2) (auto split: if_splits)

lemma last_map2:
  "length xs = length ys \<Longrightarrow> xs \<noteq> [] \<Longrightarrow> last (map2 f xs ys) = f (last xs) (last ys)"
proof -
  assume a: "length xs = length ys" "xs \<noteq> []"
  then have "zip xs ys \<noteq> []" by (cases xs; cases ys) auto
  then show ?thesis using a by (simp add: last_map last_zip)
qed

lemma nonempty_length: "length xs = length ys \<Longrightarrow> ys \<noteq> [] \<Longrightarrow> xs \<noteq> []"
  by (cases xs) auto

lemma latest_indicators_Inr:
  assumes "close \<noteq> []"
  shows "latest_indicators close =
           Inr \<lparr>l_close = last close, l_rsi = last (rsi_series close),
                l_macd_line = last (macd_series close),
                l_signal_line = last (signal_series close)\<rparr>"
proof -
  have r: "rsi_series close \<noteq> []"
    by (rule nonempty_length [OF length_rsi_series assms])
  have m: "macd_series close \<noteq> []"
    by (rule nonempty_length [OF length_macd_series assms])
  have s: "signal_series close \<noteq> []"
    by (rule nonempty_length [OF length_signal_series assms])
  have z3: "last (zip (macd_series close) (signal_series close)) =
              (last (macd_series close), last (signal_series close))"
    using m by (simp add: last_zip)
  have z2: "last (zip (rsi_series close) (zip (macd_series close) (signal_series close))) =
              (last (rsi_series close), last (macd_series close), last (signal_series close))"
    using r z3 by (simp add: last_zip)
  have z1: "last (zip close (zip (rsi_series close)
                 (zip (macd_series close) (signal_series close)))) =
              (last close, last (rsi_series close), last (macd_series close),
               last (signal_series close))"
    using assms z2 by (simp add: last_zip)
  have ne: "zip close (zip (rsi_series close)
                 (zip (macd_series close) (signal_series close))) \<noteq> []"
    using assms r m s by (cases close; cases "rsi_series close"; cases "macd_series close";
        cases "signal_series close") simp_all
  show ?thesis
    unfolding latest_indicators_def iloc_last_def using ne z1 by (simp add: and_then_def)
qed

lemma risk_figures_of_Inr:
  assumes "close \<noteq> []"
  shows "\<exists>figures. risk_figures_of e close = Inr figures"
proof -
  define cum where "cum = cumprod_from None (map (fl_add (Fin 1)) (pct_change close))"
  define dd where "dd = map2 (\<lambda>c r. fl_div (fl_sub c r) r) cum (cummax_from None cum)"
  have "length dd = length close"
    by (simp add: dd_def cum_def)
  then have "dd \<noteq> []"
    using assms by (rule nonempty_length)
  then show ?thesis
    unfolding risk_figures_of_def Let_def iloc_last_def cum_def [symmetric] dd_def [symmetric]
    by (simp add: and_then_def)
qed

lemma ingestion_success:
  assumes "history e t = Inr hist" "hist \<noteq> []"
  shows "apply_node (data_ingestion_node e) [(''ticker'', VStr t)] =
           Inr [(''ticker'', VStr t),
                (''historical_data'', VFrame hist),
                (''start_date'', VStr (fold min (map fst hist) (fst (hd hist)))),
                (''end_date'', VStr (fold max (map fst hist) (fst (hd hist)))),
                (''success'', VBool True)]"
  using assms
  by (simp add: apply_node_def data_ingestion_node_def dict_item_def merge_def)

lemma analysis_success:
  assumes "info e t = Inr inf0" "hist \<noteq> []"
  shows "apply_node (analysis_node e)
           [(''ticker'', VStr t), (''historical_data'', VFrame hist),
            (''start_date'', sd), (''end_date'', ed), (''success'', VBool True)] =
           Inr [(''ticker'', VStr t), (''historical_data'', VFrame hist),
                (''start_date'', sd), (''end_date'', ed), (''success'', VBool True),
                (''fundamental_metrics'',
                   VDict [(''market_cap'', dict_get_or inf0 ''marketCap'' (VStr ''N/A'')),
                          (''pe_ratio'', dict_get_or inf0 ''trailingPE'' (VStr ''N/A'')),
                          (''forward_pe'', dict_get_or inf0 ''forwardPE'' (VStr ''N/A'')),
                          (''sector'', dict_get_or inf0 ''sector'' (VStr ''Unknown''))]),
                (''technical_indicators'',
                   VDict (technicals_of
                     \<lparr>l_close = last (map (\<lambda>r. Fin (snd r)) hist),
                      l_rsi = last (rsi_series (map (\<lambda>r. Fin (snd r)) hist)),
                      l_macd_line = last (macd_series (map (\<lambda>r. Fin (snd r)) hist)),
                      l_signal_line = last (signal_series (map (\<lambda>r. Fin (snd r)) hist))\<rparr>))]"
proof -
  have ne: "map (\<lambda>r. Fin (snd r)) hist \<noteq> []"
    using assms(2) by simp
  show ?thesis
    using assms(1)
    by (simp add: apply_node_def analysis_node_def dict_item_def merge_def has_error_def
        dict_get_def latest_indicators_Inr [OF ne] Let_def)
qed

lemma risk_success:
  assumes "risk_figures_of e (map (\<lambda>r. Fin (snd r)) hist) = Inr figures"
  shows "apply_node (risk_node e)
           [(''ticker'', VStr t), (''historical_data'', VFrame hist),
            (''start_date'', sd), (''end_date'', ed), (''success'', VBool True),
            (''fundamental_metrics'', fm), (''technical_indicators'', ti)] =
           Inr [(''ticker'', VStr t), (''historical_data'', VFrame hist),
                (''start_date'', sd), (''end_date'', ed), (''success'', VBool True),
                (''fundamental_metrics'', fm), (''technical_indicators'', ti),
                (''risk_metrics'', VDict (risk_metrics_of figures))]"
  using assms
  by (simp add: apply_node_def risk_node_def dict_item_def merge_def has_error_def
      dict_get_def)


subsection \<open>Propagation of an ingestion error\<close>

lemma ingestion_cases:
  assumes "data_ingestion_node e [(''ticker'', VStr t)] = Inr u"
    "dict_get u ''success'' = VBool False"
  obtains msg where "msg \<noteq> []"
    "u = [(''historical_data'', VNone), (''error'', VStr msg), (''success'', VBool False)]"
proof (cases "history e t")
  case (Inl exn)
  with assms(1) that [of "''Error fetching data for ticker '' @ [CHR 0x27] @ t
      @ [CHR 0x27] @ '': '' @ exn"]
  show ?thesis
    by (simp add: data_ingestion_node_def dict_item_def)
next
  case (Inr hist)
  show ?thesis
  proof (cases "hist = []")
    case True
    with Inr assms(1) that [of "''No data found for ticker '' @ [CHR 0x27] @ t
        @ [CHR 0x27] @ ''. Please verify the ticker symbol is correct.''"]
    show ?thesis
      by (simp add: data_ingestion_node_def dict_item_def)
  next
    case False
    with Inr assms show ?thesis
      by (auto simp: data_ingestion_node_def dict_item_def dict_get_def)
  qed
qed

lemma analysis_failed:
  assumes "msg \<noteq> []"
  shows "analysis_node e
           ([(''ticker'', VStr t), (''historical_data'', VNone), (''error'', VStr msg),
             (''success'', VBool False)] @ rest) =
         Inr [(''fundamental_metrics'', VDict []), (''technical_indicators'', VDict []),
              (''error'', VStr msg), (''success'', VBool False)]"
  using assms
  by (simp add: analysis_node_def dict_item_def has_error_def dict_get_def error_message_def
      dict_get_or_def)

lemma risk_failed:
  assumes "msg \<noteq> []"
  shows "risk_node e
           ([(''ticker'', VStr t), (''historical_data'', VNone), (''error'', VStr msg),
             (''success'', VBool False)] @ rest) =
         Inr [(''risk_metrics'', VDict []), (''error'', VStr msg), (''success'', VBool False)]"
  using assms
  by (simp add: risk_node_def dict_item_def has_error_def dict_get_def error_message_def
      dict_get_or_def)

lemma synthesis_failed:
  assumes "msg \<noteq> []"
  shows "synthesis_node e
           ([(''ticker'', VStr t), (''historical_data'', VNone), (''error'', VStr msg),
             (''success'', VBool False)] @ rest) =
         Inr [(''recommendation'', VStr ''ERROR''),
              (''risk_level'', VStr ''Unknown''),
              (''reasoning'', VStr (''Analysis could not be completed: '' @ msg)),
              (''key_drivers'', VList [VStr msg]),
              (''final_report'',
                 VStr (''**Error:** '' @ msg @ [CHR 0x0A, CHR 0x0A]
                       @ ''Analysis could not be completed for ticker ''
                       @ [CHR 0x27] @ t @ [CHR 0x27]
                       @ ''. Please verify the ticker symbol is correct and try again.'')),
              (''error'', VStr msg),
              (''success'', VBool False)]"
  using assms
  by (simp add: synthesis_node_def has_error_def dict_get_def error_message_def
      dict_get_or_def Let_def)

lemma analysed_state_success:
  assumes "history e t = Inr hist" "hist \<noteq> []" "info e t = Inr inf0"
  shows "\<exists>figures. risk_figures_of e (map (\<lambda>r. Fin (snd r)) hist) = Inr figures \<and>
           analysed_state e t =
             Inr (success_state t hist inf0
                    \<lparr>l_close = last (map (\<lambda>r. Fin (snd r)) hist),
                     l_rsi = last (rsi_series (map (\<lambda>r. Fin (snd r)) hist)),
                     l_macd_line = last (macd_series (map (\<lambda>r. Fin (snd r)) hist)),
                     l_signal_line = last (signal_series (map (\<lambda>r. Fin (snd r)) hist))\<rparr>
                    figures)"
proof -
  have "map (\<lambda>r. Fin (snd r)) hist \<noteq> []"
    using assms(2) by simp
  then obtain figures where f: "risk_figures_of e (map (\<lambda>r. Fin (snd r)) hist) = Inr figures"
    using risk_figures_of_Inr by blast
  show ?thesis
    unfolding analysed_state_def success_state_def
    using f
    by (simp only: ingestion_success [OF assms(1,2)] analysis_success [OF assms(3,2)]
        risk_success [OF f] and_then_simps) simp
qed

lemma analysed_state_failed:
  assumes "data_ingestion_node e [(''ticker'', VStr t)] =
             Inr [(''historical_data'', VNone), (''error'', VStr msg),
                  (''success'', VBool False)]"
    and "msg \<noteq> []"
  shows "analysed_state e t =
           Inr [(''ticker'', VStr t), (''historical_data'', VNone), (''error'', VStr msg),
                (''success'', VBool False), (''fundamental_metrics'', VDict []),
                (''technical_indicators'', VDict []), (''risk_metrics'', VDict [])]"
proof -
  have s1: "apply_node (data_ingestion_node e) [(''ticker'', VStr t)] =
              Inr [(''ticker'', VStr t), (''historical_data'', VNone), (''error'', VStr msg),
                   (''success'', VBool False)]"
    using assms(1) by (simp add: apply_node_def merge_def)
  have s2: "apply_node (analysis_node e)
              [(''ticker'', VStr t), (''historical_data'', VNone), (''error'', VStr msg),
               (''success'', VBool False)] =
              Inr [(''ticker'', VStr t), (''historical_data'', VNone), (''error'', VStr msg),
                   (''success'', VBool False), (''fundamental_metrics'', VDict []),
                   (''technical_indicators'', VDict [])]"
    using analysis_failed [OF assms(2), of e t "[]"] by (simp add: apply_node_def merge_def)
  have s3: "apply_node (risk_node e)
              [(''ticker'', VStr t), (''historical_data'', VNone), (''error'', VStr msg),
               (''success'', VBool False), (''fundamental_metrics'', VDict []),
               (''technical_indicators'', VDict [])] =
              Inr [(''ticker'', VStr t), (''historical_data'', VNone), (''error'', VStr msg),
                   (''success'', VBool False), (''fundamental_metrics'', VDict []),
                   (''technical_indicators'', VDict []), (''risk_metrics'', VDict [])]"
    using risk_failed [OF assms(2), of e t
        "[(''fundamental_metrics'', VDict []), (''technical_indicators'', VDict [])]"]
    by (simp add: apply_node_def merge_def)
  show ?thesis
    unfolding analysed_state_def by (simp only: s1 s2 s3 and_then_simps)
qed

lemma analysed_state_cases:
  assumes "analysed_state e t = Inr s3" "dict_get s3 ''success'' = VBool True"
  obtains hist inf0 figures where
    "history e t = Inr hist" "hist \<noteq> []" "info e t = Inr inf0"
    "risk_figures_of e (map (\<lambda>r. Fin (snd r)) hist) = Inr figures"
    "s3 = success_state t hist inf0
            \<lparr>l_close = last (map (\<lambda>r. Fin (snd r)) hist),
             l_rsi = last (rsi_series (map (\<lambda>r. Fin (snd r)) hist)),
             l_macd_line = last (macd_series (map (\<lambda>r. Fin (snd r)) hist)),
             l_signal_line = last (signal_series (map (\<lambda>r. Fin (snd r)) hist))\<rparr>
            figures"
proof -
  have failed: False
    if "data_ingestion_node e [(''ticker'', VStr t)] =
             Inr [(''historical_data'', VNone), (''error'', VStr msg),
                  (''success'', VBool False)]" "msg \<noteq> []" for msg
    using analysed_state_failed [OF that] assms by (simp add: dict_get_def)
  show ?thesis
  proof (cases "history e t")
    case (Inl exn)
    then have "data_ingestion_node e [(''ticker'', VStr t)] =
             Inr [(''historical_data'', VNone),
                  (''error'', VStr (''Error fetching data for ticker '' @ [CHR 0x27] @ t
                                     @ [CHR 0x27] @ '': '' @ exn)),
                  (''success'', VBool False)]"
      by (simp add: data_ingestion_node_def dict_item_def)
    from failed [OF this] show ?thesis by simp
  next
    case (Inr hist)
    show ?thesis
    proof (cases "hist = []")
      case True
      with Inr have "data_ingestion_node e [(''ticker'', VStr t)] =
             Inr [(''historical_data'', VNone),
                  (''error'', VStr (''No data found for ticker '' @ [CHR 0x27] @ t
                                     @ [CHR 0x27]
                                     @ ''. Please verify the ticker symbol is correct.'')),
                  (''success'', VBool False)]"
        by (simp add: data_ingestion_node_def dict_item_def)
      from failed [OF this] show ?thesis by simp
    next
      case False
      show ?thesis
      proof (cases "info e t")
        case (Inl exn)
        have "apply_node (analysis_node e)
           [(''ticker'', VStr t), (''historical_data'', VFrame hist),
            (''start_date'', VStr (fold min (map fst hist) (fst (hd hist)))),
            (''end_date'', VStr (fold max (map fst hist) (fst (hd hist)))),
            (''success'', VBool True)] = Inl (Exception exn)"
          using Inl
          by (simp add: apply_node_def analysis_node_def dict_item_def has_error_def
              dict_get_def)
        then have "analysed_state e t = Inl (Exception exn)"
          unfolding analysed_state_def
          by (simp only: ingestion_success [OF Inr False] and_then_simps)
        with assms(1) show ?thesis by simp
      next
        case inf: (Inr inf0)
        from analysed_state_success [OF Inr False inf] assms(1) that [OF Inr False inf]
        show ?thesis by auto
      qed
    qed
  qed
qed

lemma extract_success_state:
  "extract_metrics (success_state t hist inf0 latest figures) =
     Inr \<lparr>m_trend = VStr (if fl_gt (l_macd_line latest) (l_signal_line latest)
                           then ''Bullish'' else ''Bearish''),
          m_rsi = VNum (py_round (l_rsi latest) 2),
          m_current_price = VNum (l_close latest),
          m_pe_ratio = dict_get_or inf0 ''trailingPE'' (VStr ''N/A''),
          m_current_drawdown = VNum (py_round (rf_current_drawdown figures) 4),
          m_volatility = VNum (py_round (rf_std_dev figures) 4),
          m_sharpe_ratio = VNum (py_round (rf_sharpe_ratio figures) 2),
          m_max_drawdown = VNum (py_round (rf_max_drawdown figures) 4)\<rparr>"
  by (simp add: extract_metrics_def success_state_def technicals_of_def risk_metrics_of_def
      dict_get_or_def Let_def)

lemma build_reasoning_numeric:
  "\<exists>reasoning. build_reasoning trend_lower (VNum x) pe (VNum v) (VNum s) (VNum d) = Inr reasoning"
  by (simp add: build_reasoning_def Let_def)

lemma build_key_drivers_numeric:
  "\<exists>kd. build_key_drivers t (VNum x) pe (VNum s) (VNum v) (VNum d) = Inr kd"
  by (simp add: build_key_drivers_def)

lemma summarise_numeric:
  assumes "m_trend m = VStr t" "m_rsi m = VNum x" "m_volatility m = VNum v"
    "m_sharpe_ratio m = VNum s" "m_current_drawdown m = VNum d"
  shows "\<exists>reasoning kd.
           summarise m =
             Inr [(''recommendation'',
                     VStr (recommend (lower t) (VNum x) (num_of (m_pe_ratio m)) (VNum s)
                             (VNum d))),
                  (''risk_level'', VStr (assess_risk_level (VNum v) (VNum d) (VNum s))),
                  (''reasoning'', VStr reasoning),
                  (''key_drivers'', VList (map VStr kd)),
                  (''final_report'',
                     VStr (report_text
                             (recommend (lower t) (VNum x) (num_of (m_pe_ratio m)) (VNum s)
                                (VNum d))
                             (assess_risk_level (VNum v) (VNum d) (VNum s)) reasoning kd)),
                  (''llm_used'', VBool False)]"
proof -
  obtain reasoning where r:
    "build_reasoning (lower t) (VNum x) (num_of (m_pe_ratio m)) (VNum v) (VNum s) (VNum d)
       = Inr reasoning"
    using build_reasoning_numeric by blast
  obtain kd where k:
    "build_key_drivers t (VNum x) (num_of (m_pe_ratio m)) (VNum s) (VNum v) (VNum d) = Inr kd"
    using build_key_drivers_numeric by blast
  show ?thesis
    using assms
    by (intro exI [of _ reasoning] exI [of _ kd])
      (simp add: summarise_def pe_numeric_of_eq Let_def r k)
qed

lemma summary_of_success_state:
  "\<exists>reasoning kd.
     generate_offline_summary (success_state t hist inf0 latest figures) =
       Inr [(''recommendation'',
               VStr (recommend
                       (lower (if fl_gt (l_macd_line latest) (l_signal_line latest)
                               then ''Bullish'' else ''Bearish''))
                       (VNum (py_round (l_rsi latest) 2))
                       (num_of (dict_get_or inf0 ''trailingPE'' (VStr ''N/A'')))
                       (VNum (py_round (rf_sharpe_ratio figures) 2))
                       (VNum (py_round (rf_current_drawdown figures) 4)))),
            (''risk_level'',
               VStr (assess_risk_level (VNum (py_round (rf_std_dev figures) 4))
                       (VNum (py_round (rf_current_drawdown figures) 4))
                       (VNum (py_round (rf_sharpe_ratio figures) 2)))),
            (''reasoning'', VStr reasoning),
            (''key_drivers'', VList (map VStr kd)),
            (''final_report'',
               VStr (report_text
                       (recommend
                          (lower (if fl_gt (l_macd_line latest) (l_signal_line latest)
                                  then ''Bullish'' else ''Bearish''))
                          (VNum (py_round (l_rsi latest) 2))
                          (num_of (dict_get_or inf0 ''trailingPE'' (VStr ''N/A'')))
                          (VNum (py_round (rf_sharpe_ratio figures) 2))
                          (VNum (py_round (rf_current_drawdown figures) 4)))
                       (assess_risk_level (VNum (py_round (rf_std_dev figures) 4))
                          (VNum (py_round (rf_current_drawdown figures) 4))
                          (VNum (py_round (rf_sharpe_ratio figures) 2)))
                       reasoning kd)),
            (''llm_used'', VBool False)]"
  unfolding generate_offline_summary_def extract_success_state and_then_simps
  using summarise_numeric [of "\<lparr>m_trend = VStr (if fl_gt (l_macd_line latest) (l_signal_line latest)
                           then ''Bullish'' else ''Bearish''),
          m_rsi = VNum (py_round (l_rsi latest) 2),
          m_current_price = VNum (l_close latest),
          m_pe_ratio = dict_get_or inf0 ''trailingPE'' (VStr ''N/A''),
          m_current_drawdown = VNum (py_round (rf_current_drawdown figures) 4),
          m_volatility = VNum (py_round (rf_std_dev figures) 4),
          m_sharpe_ratio = VNum (py_round (rf_sharpe_ratio figures) 2),
          m_max_drawdown = VNum (py_round (rf_max_drawdown figures) 4)\<rparr>"]
  by simp

lemma dict_set_llm_used:
  "dict_set ''llm_used'' (VBool False)
     [(''recommendation'', a), (''risk_level'', b), (''reasoning'', c), (''key_drivers'', d),
      (''final_report'', f), (''llm_used'', VBool False)] =
     [(''recommendation'', a), (''risk_level'', b), (''reasoning'', c), (''key_drivers'', d),
      (''final_report'', f), (''llm_used'', VBool False)]"
  by simp

lemma synthesis_on_success_state:
  "synthesis_node e (success_state t hist inf0 latest figures) =
     (if google_api_key e = None \<or> google_api_key e = Some []
      then offline_result (success_state t hist inf0 latest figures)
      else (case model_path e (success_state t hist inf0 latest figures) of
              Inl exn \<Rightarrow> offline_result (success_state t hist inf0 latest figures)
            | Inr r \<Rightarrow> Inr r))"
proof -
  have "has_error (success_state t hist inf0 latest figures) = Inr False"
    by (simp add: has_error_def success_state_def dict_get_def)
  moreover have "\<exists>a b c d.
      dict_item (success_state t hist inf0 latest figures) ''ticker'' = Inr a \<and>
      dict_item (success_state t hist inf0 latest figures) ''fundamental_metrics'' = Inr b \<and>
      dict_item (success_state t hist inf0 latest figures) ''technical_indicators'' = Inr c \<and>
      dict_item (success_state t hist inf0 latest figures) ''risk_metrics'' = Inr d"
    by (simp add: success_state_def dict_item_def)
  ultimately show ?thesis
    unfolding synthesis_node_def Let_def by auto
qed

lemma model_path_cases:
  "model_path e s =
     (case primary_model e of
        Inr c \<Rightarrow> (case parse e c of
                     Inl m \<Rightarrow> Inl (Exception m)
                   | Inr rep \<Rightarrow>
                       Inr [(''recommendation'', VStr (fr_recommendation rep)),
                            (''reasoning'', VStr (fr_reasoning rep)),
                            (''key_drivers'', VList (map VStr (fr_key_drivers rep))),
                            (''risk_level'', VStr (fr_risk_level rep)),
                            (''final_report'',
                               VStr (report_text (fr_recommendation rep) (fr_risk_level rep)
                                       (fr_reasoning rep) (fr_key_drivers rep))),
                            (''llm_used'', VBool True)])
      | Inl m1 \<Rightarrow>
          (case fallback_model e of
             Inl m2 \<Rightarrow> offline_result s
           | Inr c \<Rightarrow> (case parse e c of
                          Inl m \<Rightarrow> Inl (Exception m)
                        | Inr rep \<Rightarrow>
                            Inr [(''recommendation'', VStr (fr_recommendation rep)),
                                 (''reasoning'', VStr (fr_reasoning rep)),
                                 (''key_drivers'', VList (map VStr (fr_key_drivers rep))),
                                 (''risk_level'', VStr (fr_risk_level rep)),
                                 (''final_report'',
                                    VStr (report_text (fr_recommendation rep)
                                            (fr_risk_level rep) (fr_reasoning rep)
                                            (fr_key_drivers rep))),
                                 (''llm_used'', VBool True)])))"
  by (cases "offline_result s")
    (auto simp: model_path_def try_fallback_def Let_def split: sum.splits)

subsection \<open>The deterministic fallback\<close>

text \<open>
  Claim C5. For every state that the ingestion, analysis and risk stages produced
  without an error, if the language-model path fails totally (no API key, or the
  primary and the fallback model both raise, or the response of the model that
  answered does not parse), the synthesis stage returns the result of the deterministic
  summary, which does not raise, with \<^verbatim>\<open>llm_used = False\<close> and the field set
  recommendation, risk_level, reasoning, key_drivers, final_report, llm_used; a
  successful model path returns a result with \<^verbatim>\<open>llm_used = True\<close> and the same
  field set.
\<close>

theorem deterministic_fallback:
  assumes "analysed_state e t = Inr s3" and "dict_get s3 ''success'' = VBool True"
    and "google_api_key e' = None \<or> google_api_key e' = Some [] \<or>
         (\<exists>m1 m2. primary_model e' = Inl m1 \<and> fallback_model e' = Inl m2) \<or>
         (\<exists>c m. primary_model e' = Inr c \<and> parse e' c = Inl m) \<or>
         (\<exists>m1 c m. primary_model e' = Inl m1 \<and> fallback_model e' = Inr c \<and>
            parse e' c = Inl m)"
  shows "\<exists>r. generate_offline_summary s3 = Inr r \<and>
           synthesis_node e' s3 = Inr r \<and>
           map_of r ''llm_used'' = Some (VBool False) \<and>
           keys r = {''recommendation'', ''risk_level'', ''reasoning'', ''key_drivers'',
                     ''final_report'', ''llm_used''} \<and>
           (\<forall>e2 c rep.
              google_api_key e2 \<noteq> None \<and> google_api_key e2 \<noteq> Some [] \<and>
              (primary_model e2 = Inr c \<or>
               (\<exists>m. primary_model e2 = Inl m) \<and> fallback_model e2 = Inr c) \<and>
              parse e2 c = Inr rep \<longrightarrow>
              (\<exists>r2. synthesis_node e2 s3 = Inr r2 \<and>
                 map_of r2 ''llm_used'' = Some (VBool True) \<and> keys r2 = keys r))"
proof -
  from assms(1,2) obtain hist inf0 figures latest where
    s3: "s3 = success_state t hist inf0 latest figures"
    by (rule analysed_state_cases) blast
  obtain reasoning kd rc rl where
    g: "generate_offline_summary s3 =
          Inr [(''recommendation'', VStr rc), (''risk_level'', VStr rl),
               (''reasoning'', VStr reasoning), (''key_drivers'', VList (map VStr kd)),
               (''final_report'', VStr (report_text rc rl reasoning kd)),
               (''llm_used'', VBool False)]"
    using summary_of_success_state [of t hist inf0 latest figures] unfolding s3 by blast
  let ?r = "[(''recommendation'', VStr rc), (''risk_level'', VStr rl),
               (''reasoning'', VStr reasoning), (''key_drivers'', VList (map VStr kd)),
               (''final_report'', VStr (report_text rc rl reasoning kd)),
               (''llm_used'', VBool False)]"
  have off: "offline_result s3 = Inr ?r"
    unfolding offline_result_def g and_then_simps dict_set_llm_used ..
  have syn: "synthesis_node e' s3 = Inr ?r"
    using assms(3) off
    unfolding s3 synthesis_on_success_state model_path_cases
    by (auto split: sum.splits)
  have k: "keys ?r = {''recommendation'', ''risk_level'', ''reasoning'', ''key_drivers'',
                     ''final_report'', ''llm_used''}"
    by (simp add: keys_def)
  have m: "\<exists>r2. synthesis_node e2 s3 = Inr r2 \<and>
                 map_of r2 ''llm_used'' = Some (VBool True) \<and> keys r2 = keys ?r"
    if "google_api_key e2 \<noteq> None \<and> google_api_key e2 \<noteq> Some [] \<and>
              (primary_model e2 = Inr c \<or>
               (\<exists>m. primary_model e2 = Inl m) \<and> fallback_model e2 = Inr c) \<and>
              parse e2 c = Inr rep" for e2 c rep
    using that
    unfolding s3 synthesis_on_success_state model_path_cases
    by (auto simp: keys_def split: sum.splits)
  have l: "map_of ?r ''llm_used'' = Some (VBool False)"
    by simp
  show ?thesis
  proof (rule exI [of _ ?r], intro conjI allI impI)
    show "generate_offline_summary s3 = Inr ?r" by (rule g)
    show "synthesis_node e' s3 = Inr ?r" by (rule syn)
    show "map_of ?r ''llm_used'' = Some (VBool False)" by (rule l)
    show "keys ?r = {''recommendation'', ''risk_level'', ''reasoning'', ''key_drivers'',
                     ''final_report'', ''llm_used''}" by (rule k)
    fix e2 :: env and c rep
    assume a: "google_api_key e2 \<noteq> None \<and> google_api_key e2 \<noteq> Some [] \<and>
              (primary_model e2 = Inr c \<or>
               (\<exists>m. primary_model e2 = Inl m) \<and> fallback_model e2 = Inr c) \<and>
              parse e2 c = Inr rep"
    show "\<exists>r2. synthesis_node e2 s3 = Inr r2 \<and>
                 map_of r2 ''llm_used'' = Some (VBool True) \<and> keys r2 = keys ?r"
      by (rule m [OF a])
  qed
qed

lemma single_row_analysed: "analysed_state single_row_env ''X'' = Inr single_row_state"
  by (simp add: analysed_state_def single_row_env_def single_row_state_def apply_node_def
      data_ingestion_node_def dict_item_def merge_def analysis_node_def has_error_def
      dict_get_def dict_get_or_def latest_indicators_def iloc_last_def rsi_series_def
      gain_series_def loss_series_def macd_series_def signal_series_def technicals_of_def
      series_where_def fl_sub_def span_alpha_def Let_def risk_node_def risk_figures_of_def
      risk_metrics_of_def series_min_def series_mean_def series_std_def dropna_def fl_ne_def
      round_half_even_def)

text \<open>
  The run on a single row without an API key, and the same state handed to a model
  that answers.
\<close>

theorem deterministic_fallback_witness:
  "analysed_state single_row_env ''X'' = Inr single_row_state
   \<and> dict_get single_row_state ''success'' = VBool True
   \<and> google_api_key single_row_env = None
   \<and> (\<exists>r. generate_offline_summary single_row_state = Inr r \<and>
          synthesis_node single_row_env single_row_state = Inr r \<and>
          map_of r ''llm_used'' = Some (VBool False) \<and>
          keys r = {''recommendation'', ''risk_level'', ''reasoning'', ''key_drivers'',
                    ''final_report'', ''llm_used''} \<and>
          (\<exists>r2. synthesis_node answering_env single_row_state = Inr r2 \<and>
             map_of r2 ''llm_used'' = Some (VBool True) \<and> keys r2 = keys r))"
proof -
  have h2: "dict_get single_row_state ''success'' = VBool True"
    by (simp add: single_row_state_def dict_get_def)
  have h3: "google_api_key single_row_env = None"
    by (simp add: single_row_env_def)
  have a: "google_api_key answering_env \<noteq> None \<and> google_api_key answering_env \<noteq> Some [] \<and>
      (primary_model answering_env = Inr ''{recommendation: HOLD}'' \<or>
       (\<exists>m. primary_model answering_env = Inl m) \<and>
         fallback_model answering_env = Inr ''{recommendation: HOLD}'') \<and>
      parse answering_env ''{recommendation: HOLD}'' =
        Inr \<lparr>fr_recommendation = ''HOLD'', fr_reasoning = ''Flat.'',
             fr_key_drivers = [''RSI of 50'', ''MACD of 0'', ''One row''],
             fr_risk_level = ''Medium''\<rparr>"
    by (simp add: answering_env_def)
  have "\<exists>r. generate_offline_summary single_row_state = Inr r \<and>
           synthesis_node single_row_env single_row_state = Inr r \<and>
           map_of r ''llm_used'' = Some (VBool False) \<and>
           keys r = {''recommendation'', ''risk_level'', ''reasoning'', ''key_drivers'',
                     ''final_report'', ''llm_used''} \<and>
           (\<forall>e2 c rep.
              google_api_key e2 \<noteq> None \<and> google_api_key e2 \<noteq> Some [] \<and>
              (primary_model e2 = Inr c \<or>
               (\<exists>m. primary_model e2 = Inl m) \<and> fallback_model e2 = Inr c) \<and>
              parse e2 c = Inr rep \<longrightarrow>
              (\<exists>r2. synthesis_node e2 single_row_state = Inr r2 \<and>
                 map_of r2 ''llm_used'' = Some (VBool True) \<and> keys r2 = keys r))"
    by (rule deterministic_fallback [OF single_row_analysed h2 disjI1 [OF h3]])
  then obtain r where r1: "generate_offline_summary single_row_state = Inr r"
    and r2: "synthesis_node single_row_env single_row_state = Inr r"
    and r3: "map_of r ''llm_used'' = Some (VBool False)"
    and r4: "keys r = {''recommendation'', ''risk_level'', ''reasoning'', ''key_drivers'',
                     ''final_report'', ''llm_used''}"
    and m: "\<forall>e2 c rep.
              google_api_key e2 \<noteq> None \<and> google_api_key e2 \<noteq> Some [] \<and>
              (primary_model e2 = Inr c \<or>
               (\<exists>m. primary_model e2 = Inl m) \<and> fallback_model e2 = Inr c) \<and>
              parse e2 c = Inr rep \<longrightarrow>
              (\<exists>r2. synthesis_node e2 single_row_state = Inr r2 \<and>
                 map_of r2 ''llm_used'' = Some (VBool True) \<and> keys r2 = keys r)"
    by (elim exE conjE)
  have r5: "\<exists>r2. synthesis_node answering_env single_row_state = Inr r2 \<and>
                 map_of r2 ''llm_used'' = Some (VBool True) \<and> keys r2 = keys r"
    by (rule m [rule_format, OF a])
  show ?thesis
    by (intro conjI exI [of _ r] single_row_analysed h2 h3 r1 r2 r3 r4 r5)
qed

lemma and_then_assoc: "and_then (and_then m f) g = and_then m (\<lambda>x. and_then (f x) g)"
  by (cases m) simp_all

lemma run_pipeline_alt:
  "run_pipeline e t = and_then (analysed_state e t) (apply_node (synthesis_node e))"
  by (simp add: run_pipeline_def analysed_state_def and_then_assoc)

lemma three_row_latest:
  "latest_indicators (map (\<lambda>r. Fin (snd r)) three_rows) =
     Inr \<lparr>l_close = Fin (2647473 / 25000), l_rsi = Fin (17499 / 250),
          l_macd_line = Fin (275693201 / 256668750),
          l_signal_line = Fin (2181040141 / 6416718750)\<rparr>"
  by (simp add: three_rows_def latest_indicators_def iloc_last_def rsi_series_def
      gain_series_def loss_series_def macd_series_def signal_series_def series_where_def
      fl_sub_def fl_gt_def span_alpha_def Let_def)

lemma three_row_rounded:
  "technicals_of \<lparr>l_close = Fin (2647473 / 25000), l_rsi = Fin (17499 / 250),
          l_macd_line = Fin (275693201 / 256668750),
          l_signal_line = Fin (2181040141 / 6416718750)\<rparr> =
     [(''current_price'', VNum (Fin (2647473 / 25000))),
      (''rsi_14'', VNum (Fin 70)),
      (''macd_line'', VNum (Fin (107 / 100))),
      (''signal_line'', VNum (Fin (34 / 100))),
      (''trend'', VStr ''Bullish'')]"
  by (simp add: technicals_of_def round_half_even_def Let_def)

lemma lower_Bearish: "lower ''Bearish'' = ''bearish''"
  by (simp add: lower_def lower_char_def)

lemma single_row_summary:
  "generate_offline_summary single_row_state = Inr single_row_summary_dict"
  by (simp add: single_row_state_def single_row_summary_dict_def single_row_reasoning_def
      generate_offline_summary_def extract_metrics_def
      summarise_def dict_get_or_def build_key_drivers_def build_reasoning_def
      pe_numeric_of_def lower_Bearish recommend_def assess_risk_level_def is_num_lt_def
      is_num_ge_def is_num_gt_def fl_ge_def pe_reasonable_of_def Let_def)

lemma single_row_synthesis:
  "synthesis_node single_row_env single_row_state = Inr single_row_summary_dict"
proof -
  have he: "has_error single_row_state = Inr False"
    by (simp add: has_error_def single_row_state_def dict_get_def)
  have di: "\<exists>a b c d.
      dict_item single_row_state ''ticker'' = Inr a \<and>
      dict_item single_row_state ''fundamental_metrics'' = Inr b \<and>
      dict_item single_row_state ''technical_indicators'' = Inr c \<and>
      dict_item single_row_state ''risk_metrics'' = Inr d"
    by (simp add: single_row_state_def dict_item_def)
  have off: "offline_result single_row_state = Inr single_row_summary_dict"
    unfolding offline_result_def single_row_summary and_then_simps
    by (simp add: single_row_summary_dict_def)
  have key: "google_api_key single_row_env = None"
    by (simp add: single_row_env_def)
  show ?thesis
    unfolding synthesis_node_def Let_def using he di off key by auto
qed

lemma single_row_run:
  "run_pipeline single_row_env ''X'' = Inr (merge single_row_state single_row_summary_dict)"
  by (simp add: run_pipeline_alt single_row_analysed apply_node_def single_row_synthesis)

subsection \<open>The RSI when the smoothed loss is zero\<close>

text \<open>
  Claim C6 says that a zero loss gives the RSI 100 and that a single row gives a
  defined value, never \<open>nan\<close>. On a single row the smoothed gain and loss are both
  zero, their quotient is \<open>nan\<close> and so is the RSI, which the run stores and reports.
\<close>

theorem rsi_single_row_counterexample:
  "latest_indicators [Fin 100] =
     Inr \<lparr>l_close = Fin 100, l_rsi = NaN, l_macd_line = Fin 0, l_signal_line = Fin 0\<rparr>
   \<and> result_field2 (run_pipeline single_row_env ''X'') ''technical_indicators'' ''rsi_14''
       = Inr (VNum NaN)
   \<and> result_field (run_pipeline single_row_env ''X'') ''reasoning'' =
       Inr (VStr ''Technical analysis shows a bearish trend with RSI at nan. Valuation metrics are not available. Volatility is nan% with a Sharpe ratio of nan. Current drawdown is nan%.'')"
proof -
  have "latest_indicators [Fin 100] =
     Inr \<lparr>l_close = Fin 100, l_rsi = NaN, l_macd_line = Fin 0, l_signal_line = Fin 0\<rparr>"
    by (simp add: latest_indicators_def iloc_last_def rsi_series_def
      gain_series_def loss_series_def macd_series_def signal_series_def series_where_def
      fl_sub_def fl_gt_def span_alpha_def Let_def)
  moreover have "result_field2 (run_pipeline single_row_env ''X'') ''technical_indicators''
      ''rsi_14'' = Inr (VNum NaN)"
    by (simp add: single_row_run merge_def single_row_state_def single_row_summary_dict_def
        result_field2_def result_field_def dict_item_def)
  moreover have "result_field (run_pipeline single_row_env ''X'') ''reasoning'' =
       Inr (VStr ''Technical analysis shows a bearish trend with RSI at nan. Valuation metrics are not available. Volatility is nan% with a Sharpe ratio of nan. Current drawdown is nan%.'')"
    by (simp add: single_row_run merge_def single_row_state_def single_row_summary_dict_def
        result_field_def dict_item_def single_row_reasoning_def)
  ultimately show ?thesis by (intro conjI)
qed

lemma finite_nonnegE:
  assumes "finite_nonneg x"
  obtains a where "x = Fin a" "0 \<le> a"
  using assms by (cases x) simp_all

lemma ewm_from_nonneg:
  assumes "0 \<le> a" "a \<le> 1"
  shows "finite_nonneg y \<Longrightarrow> list_all finite_nonneg xs \<Longrightarrow>
         list_all finite_nonneg (ewm_from a y xs)"
proof (induction xs arbitrary: y)
  case Nil
  then show ?case by simp
next
  case (Cons x xs)
  from Cons.prems have "finite_nonneg y" "finite_nonneg x"
    by simp_all
  then obtain b c where y: "y = Fin b" "0 \<le> b" and x: "x = Fin c" "0 \<le> c"
    by (elim finite_nonnegE)
  have "0 \<le> (1 - a) * b + a * c"
    using assms y(2) x(2) by simp
  then have "finite_nonneg (fl_add (fl_mul (Fin (1 - a)) y) (fl_mul (Fin a) x))"
    by (simp add: y x)
  with Cons show ?case by (simp add: Let_def)
qed

lemma ewm_mean_nonneg:
  assumes "0 \<le> a" "a \<le> 1" "list_all finite_nonneg xs"
  shows "list_all finite_nonneg (ewm_mean a xs)"
  using assms by (cases xs) (simp_all add: ewm_from_nonneg)

lemma map2_sub_values:
  "list_all (\<lambda>d. d = NaN \<or> (\<exists>x. d = Fin x))
     (map2 (\<lambda>a b. fl_sub b a) (map Fin us) (map Fin vs))"
proof (induction us arbitrary: vs)
  case Nil
  then show ?case by simp
next
  case (Cons u us)
  show ?case
  proof (cases vs)
    case Nil
    then show ?thesis by simp
  next
    case (Cons v ws)
    with Cons.IH [of ws] show ?thesis
      by (simp add: fl_sub_def)
  qed
qed

lemma diff_values:
  "list_all (\<lambda>d. d = NaN \<or> (\<exists>x. d = Fin x)) (diff (map Fin ps))"
proof (cases ps)
  case Nil
  then show ?thesis by simp
next
  case (Cons p qs)
  from map2_sub_values [of "p # qs" qs] show ?thesis
    by (simp add: Cons)
qed

lemma gain_inputs_nonneg:
  "list_all finite_nonneg (series_where (\<lambda>d. fl_gt d (Fin 0)) (Fin 0) (diff (map Fin ps)))"
  using diff_values [of ps]
  by (auto simp: series_where_def list_all_iff fl_gt_def)

lemma loss_inputs_nonneg:
  "list_all finite_nonneg
     (map fl_neg (series_where (\<lambda>d. fl_lt d (Fin 0)) (Fin 0) (diff (map Fin ps))))"
  using diff_values [of ps]
  by (auto simp: series_where_def list_all_iff)

lemma last_gain_loss:
  assumes "ps \<noteq> []"
  shows "finite_nonneg (last (gain_series (map Fin ps)))"
    and "finite_nonneg (last (loss_series (map Fin ps)))"
proof -
  have "list_all finite_nonneg (gain_series (map Fin ps))"
    unfolding gain_series_def Let_def by (rule ewm_mean_nonneg) (simp_all add: gain_inputs_nonneg)
  moreover have "gain_series (map Fin ps) \<noteq> []"
    by (rule nonempty_length [of _ "map Fin ps"]) (use assms in simp_all)
  ultimately show "finite_nonneg (last (gain_series (map Fin ps)))"
    by (simp add: list_all_iff)
  have "list_all finite_nonneg (loss_series (map Fin ps))"
    unfolding loss_series_def Let_def by (rule ewm_mean_nonneg) (simp_all add: loss_inputs_nonneg)
  moreover have "loss_series (map Fin ps) \<noteq> []"
    by (rule nonempty_length [of _ "map Fin ps"]) (use assms in simp_all)
  ultimately show "finite_nonneg (last (loss_series (map Fin ps)))"
    by (simp add: list_all_iff)
qed

lemma last_rsi_series:
  assumes "close \<noteq> []"
  shows "last (rsi_series close) =
           fl_sub (Fin 100) (fl_div (Fin 100)
             (fl_add (Fin 1) (fl_div (last (gain_series close)) (last (loss_series close)))))"
proof -
  have g: "gain_series close \<noteq> []"
    by (rule nonempty_length [OF length_gain_series assms])
  have l: "length (gain_series close) = length (loss_series close)"
    by simp
  have z: "zip (gain_series close) (loss_series close) \<noteq> []"
    using g l by (cases "gain_series close"; cases "loss_series close") simp_all
  show ?thesis
    unfolding rsi_series_def Let_def
    using z by (simp add: last_map last_zip [OF l g])
qed

lemma rsi_of_gain_loss:
  assumes "0 \<le> g" "0 \<le> l"
  shows "fl_sub (Fin 100) (fl_div (Fin 100) (fl_add (Fin 1) (fl_div (Fin g) (Fin l)))) =
           (if l = 0 then (if g = 0 then NaN else Fin 100)
            else Fin (100 - 100 / (1 + g / l)))"
proof -
  have "1 + g / l \<noteq> 0" if "l \<noteq> 0"
  proof -
    have "0 \<le> g / l" using assms by simp
    then show ?thesis by linarith
  qed
  then show ?thesis
    using assms by (auto simp: fl_sub_def)
qed

text \<open>
  Claim C6, amended. For every price series with at least one row the RSI is computed
  without raising; the smoothed gain \<open>g\<close> and loss \<open>l\<close> are finite and not negative;
  with a zero loss the RSI is 100 when the gain is positive and \<open>nan\<close> when the gain
  is zero as well, and otherwise it is \<open>100 - 100 / (1 + g / l)\<close>. On a single row
  the RSI is \<open>nan\<close>.
\<close>

theorem rsi_zero_loss:
  "(prices \<noteq> [] \<longrightarrow>
      (\<exists>g l c m s.
         last (gain_series (map Fin prices)) = Fin g \<and>
         last (loss_series (map Fin prices)) = Fin l \<and> 0 \<le> g \<and> 0 \<le> l \<and>
         latest_indicators (map Fin prices) =
           Inr \<lparr>l_close = c,
                l_rsi = (if l = 0 then (if g = 0 then NaN else Fin 100)
                         else Fin (100 - 100 / (1 + g / l))),
                l_macd_line = m, l_signal_line = s\<rparr>))
   \<and> latest_indicators [Fin p] =
       Inr \<lparr>l_close = Fin p, l_rsi = NaN, l_macd_line = Fin 0, l_signal_line = Fin 0\<rparr>"
proof (intro conjI impI)
  assume ne: "prices \<noteq> []"
  then have ne': "map Fin prices \<noteq> []" by simp
  from last_gain_loss [OF ne] obtain g l where
    g: "last (gain_series (map Fin prices)) = Fin g" "0 \<le> g" and
    l: "last (loss_series (map Fin prices)) = Fin l" "0 \<le> l"
    by (elim finite_nonnegE)
  have "last (rsi_series (map Fin prices)) =
          (if l = 0 then (if g = 0 then NaN else Fin 100)
           else Fin (100 - 100 / (1 + g / l)))"
    unfolding last_rsi_series [OF ne'] g(1) l(1) by (rule rsi_of_gain_loss [OF g(2) l(2)])
  with latest_indicators_Inr [OF ne'] g l
  show "\<exists>g l c m s.
         last (gain_series (map Fin prices)) = Fin g \<and>
         last (loss_series (map Fin prices)) = Fin l \<and> 0 \<le> g \<and> 0 \<le> l \<and>
         latest_indicators (map Fin prices) =
           Inr \<lparr>l_close = c,
                l_rsi = (if l = 0 then (if g = 0 then NaN else Fin 100)
                         else Fin (100 - 100 / (1 + g / l))),
                l_macd_line = m, l_signal_line = s\<rparr>"
    by auto
next
  show "latest_indicators [Fin p] =
       Inr \<lparr>l_close = Fin p, l_rsi = NaN, l_macd_line = Fin 0, l_signal_line = Fin 0\<rparr>"
    by (simp add: latest_indicators_def iloc_last_def rsi_series_def
      gain_series_def loss_series_def macd_series_def signal_series_def series_where_def
      fl_sub_def fl_gt_def span_alpha_def Let_def)
qed

text \<open>Two rows with a rising price: the loss is zero and the RSI is 100.\<close>

theorem rsi_zero_loss_witness:
  "[100, 101 :: real] \<noteq> []
   \<and> (\<exists>g l c m s.
         last (gain_series (map Fin [100, 101])) = Fin g \<and>
         last (loss_series (map Fin [100, 101])) = Fin l \<and> 0 \<le> g \<and> 0 \<le> l \<and>
         latest_indicators (map Fin [100, 101]) =
           Inr \<lparr>l_close = c,
                l_rsi = (if l = 0 then (if g = 0 then NaN else Fin 100)
                         else Fin (100 - 100 / (1 + g / l))),
                l_macd_line = m, l_signal_line = s\<rparr>)
   \<and> last (rsi_series (map Fin [100, 101])) = Fin 100"
proof -
  have "last (rsi_series (map Fin [100, 101])) = Fin 100"
    by (simp add: rsi_series_def gain_series_def loss_series_def series_where_def
        fl_sub_def fl_gt_def Let_def)
  with rsi_zero_loss [of "[100, 101]"] show ?thesis
    by simp
qed

lemma analysed_state_Inr:
  assumes "analysed_state e t = Inr s3"
  obtains (failed) msg where "msg \<noteq> []"
      "data_ingestion_node e [(''ticker'', VStr t)] =
         Inr [(''historical_data'', VNone), (''error'', VStr msg), (''success'', VBool False)]"
      "s3 = [(''ticker'', VStr t), (''historical_data'', VNone), (''error'', VStr msg),
             (''success'', VBool False), (''fundamental_metrics'', VDict []),
             (''technical_indicators'', VDict []), (''risk_metrics'', VDict [])]"
  | (succeeded) hist inf0 figures where
      "history e t = Inr hist" "hist \<noteq> []" "info e t = Inr inf0"
      "risk_figures_of e (map (\<lambda>r. Fin (snd r)) hist) = Inr figures"
      "s3 = success_state t hist inf0
              \<lparr>l_close = last (map (\<lambda>r. Fin (snd r)) hist),
               l_rsi = last (rsi_series (map (\<lambda>r. Fin (snd r)) hist)),
               l_macd_line = last (macd_series (map (\<lambda>r. Fin (snd r)) hist)),
               l_signal_line = last (signal_series (map (\<lambda>r. Fin (snd r)) hist))\<rparr>
              figures"
proof -
  have fail: thesis
    if "data_ingestion_node e [(''ticker'', VStr t)] =
             Inr [(''historical_data'', VNone), (''error'', VStr msg),
                  (''success'', VBool False)]" "msg \<noteq> []" for msg
    using analysed_state_failed [OF that] assms failed [OF that(2) that(1)] by simp
  show ?thesis
  proof (cases "history e t")
    case (Inl exn)
    then have "data_ingestion_node e [(''ticker'', VStr t)] =
             Inr [(''historical_data'', VNone),
                  (''error'', VStr (''Error fetching data for ticker '' @ [CHR 0x27] @ t
                                     @ [CHR 0x27] @ '': '' @ exn)),
                  (''success'', VBool False)]"
      by (simp add: data_ingestion_node_def dict_item_def)
    from fail [OF this] show ?thesis by simp
  next
    case (Inr hist)
    show ?thesis
    proof (cases "hist = []")
      case True
      with Inr have "data_ingestion_node e [(''ticker'', VStr t)] =
             Inr [(''historical_data'', VNone),
                  (''error'', VStr (''No data found for ticker '' @ [CHR 0x27] @ t
                                     @ [CHR 0x27]
                                     @ ''. Please verify the ticker symbol is correct.'')),
                  (''success'', VBool False)]"
        by (simp add: data_ingestion_node_def dict_item_def)
      from fail [OF this] show ?thesis by simp
    next
      case False
      show ?thesis
      proof (cases "info e t")
        case (Inl exn)
        have "apply_node (analysis_node e)
           [(''ticker'', VStr t), (''historical_data'', VFrame hist),
            (''start_date'', VStr (fold min (map fst hist) (fst (hd hist)))),
            (''end_date'', VStr (fold max (map fst hist) (fst (hd hist)))),
            (''success'', VBool True)] = Inl (Exception exn)"
          using Inl
          by (simp add: apply_node_def analysis_node_def dict_item_def has_error_def
              dict_get_def)
        then have "analysed_state e t = Inl (Exception exn)"
          unfolding analysed_state_def
          by (simp only: ingestion_success [OF Inr False] and_then_simps)
        with assms(1) show ?thesis by simp
      next
        case inf: (Inr inf0)
        from analysed_state_success [OF Inr False inf] assms(1) succeeded [OF Inr False inf]
        show ?thesis by auto
      qed
    qed
  qed
qed

lemma ingestion_succeeded:
  assumes "history e t = Inr hist" "hist \<noteq> []"
  shows "\<not> (\<exists>u. data_ingestion_node e [(''ticker'', VStr t)] = Inr u \<and>
              dict_get u ''success'' = VBool False)"
  using assms by (simp add: data_ingestion_node_def dict_item_def dict_get_def)

lemma recommend_not_error: "recommend a b c d f \<noteq> ''ERROR''"
  by (simp add: recommend_def Let_def)

lemma failed_final_state:
  assumes "msg \<noteq> []"
    and "apply_node (synthesis_node e)
           [(''ticker'', VStr t), (''historical_data'', VNone), (''error'', VStr msg),
            (''success'', VBool False), (''fundamental_metrics'', VDict []),
            (''technical_indicators'', VDict []), (''risk_metrics'', VDict [])] = Inr s"
  shows "dict_get s ''success'' = VBool False" "dict_get s ''recommendation'' = VStr ''ERROR''"
    "dict_get s ''error'' = VStr msg"
  using assms(2)
    synthesis_failed [OF assms(1), of e t
        "[(''fundamental_metrics'', VDict []), (''technical_indicators'', VDict []),
          (''risk_metrics'', VDict [])]"]
  by (auto simp: apply_node_def merge_def dict_get_def)

lemma succeeded_final_state:
  assumes "apply_node (synthesis_node e) (success_state t hist inf0 latest figures) = Inr s"
  shows "dict_get s ''success'' = VBool True"
    and "google_api_key e = None \<or> google_api_key e = Some [] \<or>
         (\<exists>m1 m2. primary_model e = Inl m1 \<and> fallback_model e = Inl m2) \<or>
         (\<exists>c m. primary_model e = Inr c \<and> parse e c = Inl m) \<or>
         (\<exists>m1 c m. primary_model e = Inl m1 \<and> fallback_model e = Inr c \<and>
            parse e c = Inl m) \<Longrightarrow> dict_get s ''recommendation'' \<noteq> VStr ''ERROR''"
proof -
  obtain reasoning kd rc rl where
    g: "generate_offline_summary (success_state t hist inf0 latest figures) =
          Inr [(''recommendation'', VStr rc), (''risk_level'', VStr rl),
               (''reasoning'', VStr reasoning), (''key_drivers'', VList (map VStr kd)),
               (''final_report'', VStr (report_text rc rl reasoning kd)),
               (''llm_used'', VBool False)]"
    and rc: "rc \<noteq> ''ERROR''"
    using summary_of_success_state [of t hist inf0 latest figures] recommend_not_error
    by blast
  have off: "offline_result (success_state t hist inf0 latest figures) =
          Inr [(''recommendation'', VStr rc), (''risk_level'', VStr rl),
               (''reasoning'', VStr reasoning), (''key_drivers'', VList (map VStr kd)),
               (''final_report'', VStr (report_text rc rl reasoning kd)),
               (''llm_used'', VBool False)]"
    unfolding offline_result_def g and_then_simps dict_set_llm_used ..
  from assms show "dict_get s ''success'' = VBool True"
    unfolding apply_node_def synthesis_on_success_state model_path_cases off
    by (auto simp: merge_def success_state_def dict_get_def split: sum.splits if_splits)
  assume "google_api_key e = None \<or> google_api_key e = Some [] \<or>
         (\<exists>m1 m2. primary_model e = Inl m1 \<and> fallback_model e = Inl m2) \<or>
         (\<exists>c m. primary_model e = Inr c \<and> parse e c = Inl m) \<or>
         (\<exists>m1 c m. primary_model e = Inl m1 \<and> fallback_model e = Inr c \<and>
            parse e c = Inl m)"
  with assms rc show "dict_get s ''recommendation'' \<noteq> VStr ''ERROR''"
    unfolding apply_node_def synthesis_on_success_state model_path_cases off
    by (auto simp: merge_def success_state_def dict_get_def split: sum.splits if_splits)
qed

lemma failed_run:
  assumes "data_ingestion_node e [(''ticker'', VStr t)] = Inr u"
    and "dict_get u ''success'' = VBool False"
  shows "\<exists>msg s1 s2 s3 s4. msg \<noteq> [] \<and> dict_get u ''error'' = VStr msg \<and>
           apply_node (data_ingestion_node e) [(''ticker'', VStr t)] = Inr s1 \<and>
           analysis_node e s1 =
             Inr [(''fundamental_metrics'', VDict []), (''technical_indicators'', VDict []),
                  (''error'', VStr msg), (''success'', VBool False)] \<and>
           apply_node (analysis_node e) s1 = Inr s2 \<and>
           dict_get s2 ''error'' = VStr msg \<and> dict_get s2 ''success'' = VBool False \<and>
           risk_node e s2 =
             Inr [(''risk_metrics'', VDict []), (''error'', VStr msg),
                  (''success'', VBool False)] \<and>
           apply_node (risk_node e) s2 = Inr s3 \<and>
           dict_get s3 ''error'' = VStr msg \<and> dict_get s3 ''success'' = VBool False \<and>
           result_field (synthesis_node e s3) ''error'' = Inr (VStr msg) \<and>
           result_field (synthesis_node e s3) ''recommendation'' = Inr (VStr ''ERROR'') \<and>
           result_field (synthesis_node e s3) ''risk_level'' = Inr (VStr ''Unknown'') \<and>
           result_field (synthesis_node e s3) ''key_drivers'' = Inr (VList [VStr msg]) \<and>
           apply_node (synthesis_node e) s3 = Inr s4 \<and>
           run_pipeline e t = Inr s4 \<and>
           dict_get s4 ''error'' = VStr msg \<and>
           dict_get s4 ''fundamental_metrics'' = VDict [] \<and>
           dict_get s4 ''technical_indicators'' = VDict [] \<and>
           dict_get s4 ''risk_metrics'' = VDict [] \<and>
           dict_get s4 ''recommendation'' = VStr ''ERROR'' \<and>
           dict_get s4 ''success'' = VBool False"
proof -
  from assms obtain msg where msg: "msg \<noteq> []" and
    u: "u = [(''historical_data'', VNone), (''error'', VStr msg), (''success'', VBool False)]"
    by (rule ingestion_cases)
  let ?s1 = "[(''ticker'', VStr t), (''historical_data'', VNone), (''error'', VStr msg),
             (''success'', VBool False)]"
  let ?s2 = "[(''ticker'', VStr t), (''historical_data'', VNone), (''error'', VStr msg),
             (''success'', VBool False), (''fundamental_metrics'', VDict []),
             (''technical_indicators'', VDict [])]"
  let ?s3 = "[(''ticker'', VStr t), (''historical_data'', VNone), (''error'', VStr msg),
             (''success'', VBool False), (''fundamental_metrics'', VDict []),
             (''technical_indicators'', VDict []), (''risk_metrics'', VDict [])]"
  have s1: "apply_node (data_ingestion_node e) [(''ticker'', VStr t)] = Inr ?s1"
    using assms(1) by (simp add: apply_node_def u merge_def)
  have a: "analysis_node e ?s1 =
             Inr [(''fundamental_metrics'', VDict []), (''technical_indicators'', VDict []),
                  (''error'', VStr msg), (''success'', VBool False)]"
    using analysis_failed [OF msg, of e t "[]"] by simp
  have s2: "apply_node (analysis_node e) ?s1 = Inr ?s2"
    by (simp add: apply_node_def a merge_def)
  have r: "risk_node e ?s2 =
             Inr [(''risk_metrics'', VDict []), (''error'', VStr msg),
                  (''success'', VBool False)]"
    using risk_failed [OF msg, of e t
        "[(''fundamental_metrics'', VDict []), (''technical_indicators'', VDict [])]"]
    by simp
  have s3: "apply_node (risk_node e) ?s2 = Inr ?s3"
    by (simp add: apply_node_def r merge_def)
  have y: "synthesis_node e ?s3 =
         Inr [(''recommendation'', VStr ''ERROR''),
              (''risk_level'', VStr ''Unknown''),
              (''reasoning'', VStr (''Analysis could not be completed: '' @ msg)),
              (''key_drivers'', VList [VStr msg]),
              (''final_report'',
                 VStr (''**Error:** '' @ msg @ [CHR 0x0A, CHR 0x0A]
                       @ ''Analysis could not be completed for ticker ''
                       @ [CHR 0x27] @ t @ [CHR 0x27]
                       @ ''. Please verify the ticker symbol is correct and try again.'')),
              (''error'', VStr msg),
              (''success'', VBool False)]"
    using synthesis_failed [OF msg, of e t
        "[(''fundamental_metrics'', VDict []), (''technical_indicators'', VDict []),
          (''risk_metrics'', VDict [])]"]
    by simp
  obtain s4 where s4: "apply_node (synthesis_node e) ?s3 = Inr s4" and
    f4: "dict_get s4 ''error'' = VStr msg"
      "dict_get s4 ''fundamental_metrics'' = VDict []"
      "dict_get s4 ''technical_indicators'' = VDict []"
      "dict_get s4 ''risk_metrics'' = VDict []"
      "dict_get s4 ''recommendation'' = VStr ''ERROR''"
      "dict_get s4 ''success'' = VBool False"
    by (simp add: apply_node_def y merge_def dict_get_def)
  have run: "run_pipeline e t = Inr s4"
    unfolding run_pipeline_def by (simp only: s1 s2 s3 s4 and_then_simps append.simps)
  have "dict_get u ''error'' = VStr msg"
    by (simp add: u dict_get_def)
  moreover have "dict_get ?s2 ''error'' = VStr msg" "dict_get ?s2 ''success'' = VBool False"
    "dict_get ?s3 ''error'' = VStr msg" "dict_get ?s3 ''success'' = VBool False"
    by (simp_all add: dict_get_def)
  moreover have "result_field (synthesis_node e ?s3) ''error'' = Inr (VStr msg)"
    "result_field (synthesis_node e ?s3) ''recommendation'' = Inr (VStr ''ERROR'')"
    "result_field (synthesis_node e ?s3) ''risk_level'' = Inr (VStr ''Unknown'')"
    "result_field (synthesis_node e ?s3) ''key_drivers'' = Inr (VList [VStr msg])"
    by (simp_all add: y result_field_def dict_item_def)
  ultimately show ?thesis
    using msg s1 a s2 r s3 s4 run f4 by (intro exI [of _ msg] exI [of _ ?s1] exI [of _ ?s2]
        exI [of _ ?s3] exI [of _ s4]) simp
qed


text \<open>
  Claim C2 ends with: the final recommendation is ERROR if and only if
  \<^verbatim>\<open>success\<close> is false. The model path returns the parsed recommendation as it is:
  when the model answers with the word ERROR, the run ends with that recommendation
  and \<^verbatim>\<open>success = True\<close>.
\<close>

theorem error_recommendation_counterexample:
  "result_field (run_pipeline error_answer_env ''X'') ''recommendation'' = Inr (VStr ''ERROR'')
   \<and> result_field (run_pipeline error_answer_env ''X'') ''success'' = Inr (VBool True)"
proof -
  have a: "analysed_state error_answer_env ''X'' = Inr single_row_state"
    by (simp add: analysed_state_def error_answer_env_def single_row_state_def apply_node_def
      data_ingestion_node_def dict_item_def merge_def analysis_node_def has_error_def
      dict_get_def dict_get_or_def latest_indicators_def iloc_last_def rsi_series_def
      gain_series_def loss_series_def macd_series_def signal_series_def technicals_of_def
      series_where_def fl_sub_def span_alpha_def Let_def risk_node_def risk_figures_of_def
      risk_metrics_of_def series_min_def series_mean_def series_std_def dropna_def fl_ne_def
      round_half_even_def)
  have he: "has_error single_row_state = Inr False"
    by (simp add: has_error_def single_row_state_def dict_get_def)
  have di: "\<exists>a b c d.
      dict_item single_row_state ''ticker'' = Inr a \<and>
      dict_item single_row_state ''fundamental_metrics'' = Inr b \<and>
      dict_item single_row_state ''technical_indicators'' = Inr c \<and>
      dict_item single_row_state ''risk_metrics'' = Inr d"
    by (simp add: single_row_state_def dict_item_def)
  have mp: "model_path error_answer_env single_row_state =
      Inr [(''recommendation'', VStr ''ERROR''),
           (''reasoning'', VStr ''Flat.''),
           (''key_drivers'', VList [VStr ''RSI of 50'', VStr ''MACD of 0'', VStr ''One row'']),
           (''risk_level'', VStr ''Medium''),
           (''final_report'',
              VStr (report_text ''ERROR'' ''Medium'' ''Flat.''
                      [''RSI of 50'', ''MACD of 0'', ''One row''])),
           (''llm_used'', VBool True)]"
    by (simp add: model_path_cases error_answer_env_def)
  have key: "google_api_key error_answer_env = Some ''key''"
    by (simp add: error_answer_env_def)
  have syn: "synthesis_node error_answer_env single_row_state =
      Inr [(''recommendation'', VStr ''ERROR''),
           (''reasoning'', VStr ''Flat.''),
           (''key_drivers'', VList [VStr ''RSI of 50'', VStr ''MACD of 0'', VStr ''One row'']),
           (''risk_level'', VStr ''Medium''),
           (''final_report'',
              VStr (report_text ''ERROR'' ''Medium'' ''Flat.''
                      [''RSI of 50'', ''MACD of 0'', ''One row''])),
           (''llm_used'', VBool True)]"
    unfolding synthesis_node_def Let_def using he di mp key by auto
  have "run_pipeline error_answer_env ''X'' =
      Inr (merge single_row_state
        [(''recommendation'', VStr ''ERROR''),
         (''reasoning'', VStr ''Flat.''),
         (''key_drivers'', VList [VStr ''RSI of 50'', VStr ''MACD of 0'', VStr ''One row'']),
         (''risk_level'', VStr ''Medium''),
         (''final_report'',
            VStr (report_text ''ERROR'' ''Medium'' ''Flat.''
                    [''RSI of 50'', ''MACD of 0'', ''One row''])),
         (''llm_used'', VBool True)])"
    by (simp add: run_pipeline_alt a apply_node_def syn)
  then show ?thesis
    by (simp add: merge_def single_row_state_def result_field_def dict_item_def)
qed

text \<open>
  Claim C2, amended. When the ingestion stage sets an error (\<^verbatim>\<open>success = False\<close>),
  the analysis stage and the risk stage return the same error message with
  \<^verbatim>\<open>success = False\<close> and empty metric maps, the synthesis stage returns the same
  message with the recommendation ERROR, the risk level Unknown and the message as only
  key driver, and the run returns a final state with that message, empty metric maps,
  the recommendation ERROR and \<^verbatim>\<open>success = False\<close>. For every run that returns,
  \<^verbatim>\<open>success\<close> is false at the end exactly when the ingestion stage set an error, and
  then the recommendation is ERROR; when the language-model path fails totally, the
  recommendation is ERROR if and only if \<^verbatim>\<open>success\<close> is false.
\<close>

theorem error_propagation:
  "(data_ingestion_node e [(''ticker'', VStr t)] = Inr u \<and>
    dict_get u ''success'' = VBool False \<longrightarrow>
      (\<exists>msg s1 s2 s3 s4. msg \<noteq> [] \<and> dict_get u ''error'' = VStr msg \<and>
           apply_node (data_ingestion_node e) [(''ticker'', VStr t)] = Inr s1 \<and>
           analysis_node e s1 =
             Inr [(''fundamental_metrics'', VDict []), (''technical_indicators'', VDict []),
                  (''error'', VStr msg), (''success'', VBool False)] \<and>
           apply_node (analysis_node e) s1 = Inr s2 \<and>
           dict_get s2 ''error'' = VStr msg \<and> dict_get s2 ''success'' = VBool False \<and>
           risk_node e s2 =
             Inr [(''risk_metrics'', VDict []), (''error'', VStr msg),
                  (''success'', VBool False)] \<and>
           apply_node (risk_node e) s2 = Inr s3 \<and>
           dict_get s3 ''error'' = VStr msg \<and> dict_get s3 ''success'' = VBool False \<and>
           result_field (synthesis_node e s3) ''error'' = Inr (VStr msg) \<and>
           result_field (synthesis_node e s3) ''recommendation'' = Inr (VStr ''ERROR'') \<and>
           result_field (synthesis_node e s3) ''risk_level'' = Inr (VStr ''Unknown'') \<and>
           result_field (synthesis_node e s3) ''key_drivers'' = Inr (VList [VStr msg]) \<and>
           apply_node (synthesis_node e) s3 = Inr s4 \<and>
           run_pipeline e t = Inr s4 \<and>
           dict_get s4 ''error'' = VStr msg \<and>
           dict_get s4 ''fundamental_metrics'' = VDict [] \<and>
           dict_get s4 ''technical_indicators'' = VDict [] \<and>
           dict_get s4 ''risk_metrics'' = VDict [] \<and>
           dict_get s4 ''recommendation'' = VStr ''ERROR'' \<and>
           dict_get s4 ''success'' = VBool False))
   \<and> (run_pipeline e t = Inr s \<longrightarrow>
        ((dict_get s ''success'' = VBool False) =
           (\<exists>u. data_ingestion_node e [(''ticker'', VStr t)] = Inr u \<and>
                dict_get u ''success'' = VBool False)) \<and>
        (dict_get s ''success'' = VBool False \<longrightarrow>
           dict_get s ''recommendation'' = VStr ''ERROR'') \<and>
        (google_api_key e = None \<or> google_api_key e = Some [] \<or>
         (\<exists>m1 m2. primary_model e = Inl m1 \<and> fallback_model e = Inl m2) \<or>
         (\<exists>c m. primary_model e = Inr c \<and> parse e c = Inl m) \<or>
         (\<exists>m1 c m. primary_model e = Inl m1 \<and> fallback_model e = Inr c \<and>
            parse e c = Inl m) \<longrightarrow>
           ((dict_get s ''recommendation'' = VStr ''ERROR'') =
            (dict_get s ''success'' = VBool False))))"
proof (intro conjI impI)
  assume "data_ingestion_node e [(''ticker'', VStr t)] = Inr u \<and>
    dict_get u ''success'' = VBool False"
  then show "\<exists>msg s1 s2 s3 s4. msg \<noteq> [] \<and> dict_get u ''error'' = VStr msg \<and>
           apply_node (data_ingestion_node e) [(''ticker'', VStr t)] = Inr s1 \<and>
           analysis_node e s1 =
             Inr [(''fundamental_metrics'', VDict []), (''technical_indicators'', VDict []),
                  (''error'', VStr msg), (''success'', VBool False)] \<and>
           apply_node (analysis_node e) s1 = Inr s2 \<and>
           dict_get s2 ''error'' = VStr msg \<and> dict_get s2 ''success'' = VBool False \<and>
           risk_node e s2 =
             Inr [(''risk_metrics'', VDict []), (''error'', VStr msg),
                  (''success'', VBool False)] \<and>
           apply_node (risk_node e) s2 = Inr s3 \<and>
           dict_get s3 ''error'' = VStr msg \<and> dict_get s3 ''success'' = VBool False \<and>
           result_field (synthesis_node e s3) ''error'' = Inr (VStr msg) \<and>
           result_field (synthesis_node e s3) ''recommendation'' = Inr (VStr ''ERROR'') \<and>
           result_field (synthesis_node e s3) ''risk_level'' = Inr (VStr ''Unknown'') \<and>
           result_field (synthesis_node e s3) ''key_drivers'' = Inr (VList [VStr msg]) \<and>
           apply_node (synthesis_node e) s3 = Inr s4 \<and>
           run_pipeline e t = Inr s4 \<and>
           dict_get s4 ''error'' = VStr msg \<and>
           dict_get s4 ''fundamental_metrics'' = VDict [] \<and>
           dict_get s4 ''technical_indicators'' = VDict [] \<and>
           dict_get s4 ''risk_metrics'' = VDict [] \<and>
           dict_get s4 ''recommendation'' = VStr ''ERROR'' \<and>
           dict_get s4 ''success'' = VBool False"
    using failed_run [of e t u] by (elim conjE)
next
  assume run: "run_pipeline e t = Inr s"
  then obtain s3 where a: "analysed_state e t = Inr s3"
    and y: "apply_node (synthesis_node e) s3 = Inr s"
    unfolding run_pipeline_alt by (auto dest: and_then_Inr)
  from a show "(dict_get s ''success'' = VBool False) =
           (\<exists>u. data_ingestion_node e [(''ticker'', VStr t)] = Inr u \<and>
                dict_get u ''success'' = VBool False)"
  proof (cases rule: analysed_state_Inr)
    case (failed msg)
    from failed_final_state(1) [OF failed(1) y [unfolded failed(3)]] failed(2)
    show ?thesis by (auto simp: dict_get_def)
  next
    case (succeeded hist inf0 figures)
    from succeeded_final_state(1) [OF y [unfolded succeeded(5)]]
      ingestion_succeeded [OF succeeded(1,2)]
    show ?thesis by simp
  qed
next
  assume run: "run_pipeline e t = Inr s" and f: "dict_get s ''success'' = VBool False"
  from run obtain s3 where a: "analysed_state e t = Inr s3"
    and y: "apply_node (synthesis_node e) s3 = Inr s"
    unfolding run_pipeline_alt by (auto dest: and_then_Inr)
  from a show "dict_get s ''recommendation'' = VStr ''ERROR''"
  proof (cases rule: analysed_state_Inr)
    case (failed msg)
    from failed_final_state(2) [OF failed(1) y [unfolded failed(3)]]
    show ?thesis .
  next
    case (succeeded hist inf0 figures)
    from succeeded_final_state(1) [OF y [unfolded succeeded(5)]] f
    show ?thesis by simp
  qed
next
  assume run: "run_pipeline e t = Inr s"
    and d: "google_api_key e = None \<or> google_api_key e = Some [] \<or>
         (\<exists>m1 m2. primary_model e = Inl m1 \<and> fallback_model e = Inl m2) \<or>
         (\<exists>c m. primary_model e = Inr c \<and> parse e c = Inl m) \<or>
         (\<exists>m1 c m. primary_model e = Inl m1 \<and> fallback_model e = Inr c \<and>
            parse e c = Inl m)"
  from run obtain s3 where a: "analysed_state e t = Inr s3"
    and y: "apply_node (synthesis_node e) s3 = Inr s"
    unfolding run_pipeline_alt by (auto dest: and_then_Inr)
  from a show "(dict_get s ''recommendation'' = VStr ''ERROR'') =
            (dict_get s ''success'' = VBool False)"
  proof (cases rule: analysed_state_Inr)
    case (failed msg)
    from failed_final_state(1,2) [OF failed(1) y [unfolded failed(3)]]
    show ?thesis by simp
  next
    case (succeeded hist inf0 figures)
    from succeeded_final_state(1) [OF y [unfolded succeeded(5)]]
      succeeded_final_state(2) [OF y [unfolded succeeded(5)] d]
    show ?thesis by simp
  qed
qed

text \<open>
  The run on a ticker for which the data source has no rows, and the run on a single
  row without an API key.
\<close>

theorem error_propagation_witness:
  "data_ingestion_node no_data_env [(''ticker'', VStr ''ZZZZ'')] =
     Inr [(''historical_data'', VNone),
          (''error'', VStr ''No data found for ticker 'ZZZZ'. Please verify the ticker symbol is correct.''),
          (''success'', VBool False)]
   \<and> dict_get [(''historical_data'', VNone),
          (''error'', VStr ''No data found for ticker 'ZZZZ'. Please verify the ticker symbol is correct.''),
          (''success'', VBool False)] ''success'' = VBool False
   \<and> (\<exists>s4. run_pipeline no_data_env ''ZZZZ'' = Inr s4 \<and>
          dict_get s4 ''error'' = VStr ''No data found for ticker 'ZZZZ'. Please verify the ticker symbol is correct.'' \<and>
          dict_get s4 ''recommendation'' = VStr ''ERROR'' \<and>
          dict_get s4 ''success'' = VBool False)
   \<and> run_pipeline single_row_env ''X'' = Inr (merge single_row_state single_row_summary_dict)
   \<and> google_api_key single_row_env = None
   \<and> dict_get (merge single_row_state single_row_summary_dict) ''success'' = VBool True
   \<and> dict_get (merge single_row_state single_row_summary_dict) ''recommendation'' = VStr ''HOLD''
   \<and> ((dict_get (merge single_row_state single_row_summary_dict) ''recommendation''
          = VStr ''ERROR'') =
        (dict_get (merge single_row_state single_row_summary_dict) ''success''
          = VBool False))"
proof -
  let ?u = "[(''historical_data'', VNone),
          (''error'', VStr ''No data found for ticker 'ZZZZ'. Please verify the ticker symbol is correct.''),
          (''success'', VBool False)]"
  have h1: "data_ingestion_node no_data_env [(''ticker'', VStr ''ZZZZ'')] = Inr ?u"
    by (simp add: data_ingestion_node_def no_data_env_def dict_item_def)
  have h2: "dict_get ?u ''success'' = VBool False"
    by (simp add: dict_get_def)
  have h3: "dict_get ?u ''error'' = VStr ''No data found for ticker 'ZZZZ'. Please verify the ticker symbol is correct.''"
    by (simp add: dict_get_def)
  from error_propagation [of no_data_env "''ZZZZ''" ?u] h1 h2 obtain msg s4 where
    "dict_get ?u ''error'' = VStr msg"
    "run_pipeline no_data_env ''ZZZZ'' = Inr s4"
    "dict_get s4 ''error'' = VStr msg"
    "dict_get s4 ''recommendation'' = VStr ''ERROR''"
    "dict_get s4 ''success'' = VBool False"
    by blast
  with h3 have a: "\<exists>s4. run_pipeline no_data_env ''ZZZZ'' = Inr s4 \<and>
          dict_get s4 ''error'' = VStr ''No data found for ticker 'ZZZZ'. Please verify the ticker symbol is correct.'' \<and>
          dict_get s4 ''recommendation'' = VStr ''ERROR'' \<and>
          dict_get s4 ''success'' = VBool False"
    by auto
  have k: "google_api_key single_row_env = None"
    by (simp add: single_row_env_def)
  have b: "(dict_get (merge single_row_state single_row_summary_dict) ''recommendation''
          = VStr ''ERROR'') =
        (dict_get (merge single_row_state single_row_summary_dict) ''success''
          = VBool False)"
    using error_propagation [of single_row_env "''X''" _
        "merge single_row_state single_row_summary_dict"] single_row_run k
    by blast
  have c: "dict_get (merge single_row_state single_row_summary_dict) ''success'' = VBool True"
    "dict_get (merge single_row_state single_row_summary_dict) ''recommendation'' = VStr ''HOLD''"
    by (simp_all add: merge_def single_row_state_def single_row_summary_dict_def dict_get_def)
  show ?thesis
    by (intro conjI h1 h2 a single_row_run k b c)
qed

lemma recommend_at_seventy: "recommend ''bullish'' (VNum (Fin 70)) None sh dd = ''HOLD''"
  by (simp add: recommend_def is_num_lt_def Let_def)

lemma recommend_below_seventy:
  "recommend ''bullish'' (VNum (Fin (17499 / 250))) None sh dd = ''BUY''"
  by (simp add: recommend_def is_num_lt_def pe_reasonable_of_def Let_def)

lemma three_row_lasts:
  "\<lparr>l_close = last (map (\<lambda>r. Fin (snd r)) three_rows),
    l_rsi = last (rsi_series (map (\<lambda>r. Fin (snd r)) three_rows)),
    l_macd_line = last (macd_series (map (\<lambda>r. Fin (snd r)) three_rows)),
    l_signal_line = last (signal_series (map (\<lambda>r. Fin (snd r)) three_rows))\<rparr> =
   \<lparr>l_close = Fin (2647473 / 25000), l_rsi = Fin (17499 / 250),
    l_macd_line = Fin (275693201 / 256668750),
    l_signal_line = Fin (2181040141 / 6416718750)\<rparr>"
proof -
  have "map (\<lambda>r. Fin (snd r)) three_rows \<noteq> []"
    by (simp add: three_rows_def)
  from latest_indicators_Inr [OF this] three_row_latest show ?thesis
    by simp
qed

subsection \<open>Rounded values\<close>

text \<open>
  Claim C8 says that the later stages compare the unrounded values. On the three rows
  100, 109.79944, 105.89892 the RSI is 69.996 and the trend is bullish, so the
  framework on the unrounded values decides BUY; the analysis stage stores the RSI as
  70.0, and the run decides HOLD.
\<close>

theorem rounding_counterexample:
  "latest_indicators (map (\<lambda>r. Fin (snd r)) three_rows) =
     Inr \<lparr>l_close = Fin (2647473 / 25000), l_rsi = Fin (17499 / 250),
          l_macd_line = Fin (275693201 / 256668750),
          l_signal_line = Fin (2181040141 / 6416718750)\<rparr>
   \<and> unrounded_recommendation three_row_env (map (\<lambda>r. Fin (snd r)) three_rows)
         (VStr ''N/A'') = Inr ''BUY''
   \<and> result_field2 (run_pipeline three_row_env ''X'') ''technical_indicators'' ''rsi_14''
         = Inr (VNum (Fin 70))
   \<and> result_field (run_pipeline three_row_env ''X'') ''recommendation'' = Inr (VStr ''HOLD'')"
proof -
  have h: "history three_row_env ''X'' = Inr three_rows" "three_rows \<noteq> []"
    "info three_row_env ''X'' = Inr []"
    by (simp_all add: three_row_env_def three_rows_def)
  let ?latest = "\<lparr>l_close = Fin (2647473 / 25000), l_rsi = Fin (17499 / 250),
          l_macd_line = Fin (275693201 / 256668750),
          l_signal_line = Fin (2181040141 / 6416718750)\<rparr>"
  from analysed_state_success [OF h] obtain figures where
    f: "risk_figures_of three_row_env (map (\<lambda>r. Fin (snd r)) three_rows) = Inr figures" and
    a: "analysed_state three_row_env ''X'' = Inr (success_state ''X'' three_rows [] ?latest figures)"
    unfolding three_row_lasts by blast
  have u: "unrounded_recommendation three_row_env (map (\<lambda>r. Fin (snd r)) three_rows)
         (VStr ''N/A'') = Inr ''BUY''"
    by (simp add: unrounded_recommendation_def three_row_latest f lower_Bullish
        pe_numeric_of_def recommend_below_seventy)
  obtain reasoning kd rl where
    g: "generate_offline_summary (success_state ''X'' three_rows [] ?latest figures) =
          Inr [(''recommendation'', VStr ''HOLD''), (''risk_level'', VStr rl),
               (''reasoning'', VStr reasoning), (''key_drivers'', VList (map VStr kd)),
               (''final_report'', VStr (report_text ''HOLD'' rl reasoning kd)),
               (''llm_used'', VBool False)]"
    using summary_of_success_state [of "''X''" three_rows "[]" ?latest figures]
    by (auto simp: lower_Bullish round_half_even_def dict_get_or_def recommend_at_seventy)
  have off: "offline_result (success_state ''X'' three_rows [] ?latest figures) =
          Inr [(''recommendation'', VStr ''HOLD''), (''risk_level'', VStr rl),
               (''reasoning'', VStr reasoning), (''key_drivers'', VList (map VStr kd)),
               (''final_report'', VStr (report_text ''HOLD'' rl reasoning kd)),
               (''llm_used'', VBool False)]"
    unfolding offline_result_def g and_then_simps dict_set_llm_used ..
  have k: "google_api_key three_row_env = None"
    by (simp add: three_row_env_def)
  have run: "run_pipeline three_row_env ''X'' =
      Inr (merge (success_state ''X'' three_rows [] ?latest figures)
             [(''recommendation'', VStr ''HOLD''), (''risk_level'', VStr rl),
               (''reasoning'', VStr reasoning), (''key_drivers'', VList (map VStr kd)),
               (''final_report'', VStr (report_text ''HOLD'' rl reasoning kd)),
               (''llm_used'', VBool False)])"
    unfolding run_pipeline_alt a and_then_simps apply_node_def synthesis_on_success_state
    using k off by simp
  have r1: "result_field2 (run_pipeline three_row_env ''X'') ''technical_indicators'' ''rsi_14''
         = Inr (VNum (Fin 70))"
    unfolding run
    by (simp add: merge_def success_state_def result_field2_def result_field_def
        dict_item_def three_row_rounded)
  have r2: "result_field (run_pipeline three_row_env ''X'') ''recommendation''
      = Inr (VStr ''HOLD'')"
    unfolding run
    by (simp add: merge_def success_state_def result_field_def dict_item_def)
  show ?thesis
    by (intro conjI three_row_latest u r1 r2)
qed

text \<open>
  Claim C8, amended. In every run whose first three stages succeed, the analysis stage
  stores \<^verbatim>\<open>rsi_14\<close>, \<^verbatim>\<open>macd_line\<close> and \<^verbatim>\<open>signal_line\<close> rounded to 2 decimals (the
  price as computed, the trend decided on the unrounded MACD and signal line), the risk
  stage stores \<^verbatim>\<open>max_drawdown\<close>, \<^verbatim>\<open>current_drawdown\<close> and \<^verbatim>\<open>volatility\<close> rounded to
  4 decimals and \<^verbatim>\<open>sharpe_ratio\<close> to 2, and the decision framework and the risk
  classification of the synthesis stage work on these stored, rounded values.
\<close>

theorem rounded_values_decide:
  assumes "analysed_state e t = Inr s3" and "dict_get s3 ''success'' = VBool True"
  shows "\<exists>hist inf0 latest figures r.
           history e t = Inr hist \<and> info e t = Inr inf0 \<and>
           latest_indicators (map (\<lambda>r. Fin (snd r)) hist) = Inr latest \<and>
           risk_figures_of e (map (\<lambda>r. Fin (snd r)) hist) = Inr figures \<and>
           dict_get s3 ''technical_indicators'' =
             VDict [(''current_price'', VNum (l_close latest)),
                    (''rsi_14'', VNum (py_round (l_rsi latest) 2)),
                    (''macd_line'', VNum (py_round (l_macd_line latest) 2)),
                    (''signal_line'', VNum (py_round (l_signal_line latest) 2)),
                    (''trend'', VStr (if fl_gt (l_macd_line latest) (l_signal_line latest)
                                      then ''Bullish'' else ''Bearish''))] \<and>
           dict_get s3 ''risk_metrics'' =
             VDict [(''max_drawdown'', VNum (py_round (rf_max_drawdown figures) 4)),
                    (''current_drawdown'', VNum (py_round (rf_current_drawdown figures) 4)),
                    (''volatility'', VNum (py_round (rf_std_dev figures) 4)),
                    (''sharpe_ratio'', VNum (py_round (rf_sharpe_ratio figures) 2))] \<and>
           generate_offline_summary s3 = Inr r \<and>
           map_of r ''recommendation'' =
             Some (VStr (recommend
                           (lower (if fl_gt (l_macd_line latest) (l_signal_line latest)
                                   then ''Bullish'' else ''Bearish''))
                           (VNum (py_round (l_rsi latest) 2))
                           (num_of (dict_get_or inf0 ''trailingPE'' (VStr ''N/A'')))
                           (VNum (py_round (rf_sharpe_ratio figures) 2))
                           (VNum (py_round (rf_current_drawdown figures) 4)))) \<and>
           map_of r ''risk_level'' =
             Some (VStr (assess_risk_level (VNum (py_round (rf_std_dev figures) 4))
                           (VNum (py_round (rf_current_drawdown figures) 4))
                           (VNum (py_round (rf_sharpe_ratio figures) 2))))"
proof -
  from assms obtain hist inf0 figures where
    h: "history e t = Inr hist" "hist \<noteq> []" "info e t = Inr inf0" and
    f: "risk_figures_of e (map (\<lambda>r. Fin (snd r)) hist) = Inr figures" and
    s3: "s3 = success_state t hist inf0
            \<lparr>l_close = last (map (\<lambda>r. Fin (snd r)) hist),
             l_rsi = last (rsi_series (map (\<lambda>r. Fin (snd r)) hist)),
             l_macd_line = last (macd_series (map (\<lambda>r. Fin (snd r)) hist)),
             l_signal_line = last (signal_series (map (\<lambda>r. Fin (snd r)) hist))\<rparr>
            figures"
    by (rule analysed_state_cases)
  define latest where "latest =
            \<lparr>l_close = last (map (\<lambda>r. Fin (snd r)) hist),
             l_rsi = last (rsi_series (map (\<lambda>r. Fin (snd r)) hist)),
             l_macd_line = last (macd_series (map (\<lambda>r. Fin (snd r)) hist)),
             l_signal_line = last (signal_series (map (\<lambda>r. Fin (snd r)) hist))\<rparr>"
  have ne: "map (\<lambda>r. Fin (snd r)) hist \<noteq> []"
    using h(2) by simp
  have l: "latest_indicators (map (\<lambda>r. Fin (snd r)) hist) = Inr latest"
    unfolding latest_def by (rule latest_indicators_Inr [OF ne])
  have s3': "s3 = success_state t hist inf0 latest figures"
    unfolding latest_def by (rule s3)
  have ti: "dict_get s3 ''technical_indicators'' =
             VDict [(''current_price'', VNum (l_close latest)),
                    (''rsi_14'', VNum (py_round (l_rsi latest) 2)),
                    (''macd_line'', VNum (py_round (l_macd_line latest) 2)),
                    (''signal_line'', VNum (py_round (l_signal_line latest) 2)),
                    (''trend'', VStr (if fl_gt (l_macd_line latest) (l_signal_line latest)
                                      then ''Bullish'' else ''Bearish''))]"
    unfolding s3' by (simp add: success_state_def dict_get_def technicals_of_def)
  have rm: "dict_get s3 ''risk_metrics'' =
             VDict [(''max_drawdown'', VNum (py_round (rf_max_drawdown figures) 4)),
                    (''current_drawdown'', VNum (py_round (rf_current_drawdown figures) 4)),
                    (''volatility'', VNum (py_round (rf_std_dev figures) 4)),
                    (''sharpe_ratio'', VNum (py_round (rf_sharpe_ratio figures) 2))]"
    unfolding s3' by (simp add: success_state_def dict_get_def risk_metrics_of_def)
  from summary_of_success_state [of t hist inf0 latest figures]
  obtain r where g: "generate_offline_summary s3 = Inr r" and
    rc: "map_of r ''recommendation'' =
             Some (VStr (recommend
                           (lower (if fl_gt (l_macd_line latest) (l_signal_line latest)
                                   then ''Bullish'' else ''Bearish''))
                           (VNum (py_round (l_rsi latest) 2))
                           (num_of (dict_get_or inf0 ''trailingPE'' (VStr ''N/A'')))
                           (VNum (py_round (rf_sharpe_ratio figures) 2))
                           (VNum (py_round (rf_current_drawdown figures) 4))))" and
    rl: "map_of r ''risk_level'' =
             Some (VStr (assess_risk_level (VNum (py_round (rf_std_dev figures) 4))
                           (VNum (py_round (rf_current_drawdown figures) 4))
                           (VNum (py_round (rf_sharpe_ratio figures) 2))))"
    unfolding s3' by auto
  show ?thesis
    by (rule exI [of _ hist], rule exI [of _ inf0], rule exI [of _ latest],
        rule exI [of _ figures], rule exI [of _ r], intro conjI h(1) h(3) l f ti rm g rc rl)
qed

text \<open>The stored values of the run on a single row.\<close>

theorem rounded_values_decide_witness:
  "analysed_state single_row_env ''X'' = Inr single_row_state
   \<and> dict_get single_row_state ''success'' = VBool True
   \<and> (\<exists>hist inf0 latest figures r.
           history single_row_env ''X'' = Inr hist \<and> info single_row_env ''X'' = Inr inf0 \<and>
           latest_indicators (map (\<lambda>r. Fin (snd r)) hist) = Inr latest \<and>
           risk_figures_of single_row_env (map (\<lambda>r. Fin (snd r)) hist) = Inr figures \<and>
           dict_get single_row_state ''technical_indicators'' =
             VDict [(''current_price'', VNum (l_close latest)),
                    (''rsi_14'', VNum (py_round (l_rsi latest) 2)),
                    (''macd_line'', VNum (py_round (l_macd_line latest) 2)),
                    (''signal_line'', VNum (py_round (l_signal_line latest) 2)),
                    (''trend'', VStr (if fl_gt (l_macd_line latest) (l_signal_line latest)
                                      then ''Bullish'' else ''Bearish''))] \<and>
           dict_get single_row_state ''risk_metrics'' =
             VDict [(''max_drawdown'', VNum (py_round (rf_max_drawdown figures) 4)),
                    (''current_drawdown'', VNum (py_round (rf_current_drawdown figures) 4)),
                    (''volatility'', VNum (py_round (rf_std_dev figures) 4)),
                    (''sharpe_ratio'', VNum (py_round (rf_sharpe_ratio figures) 2))] \<and>
           generate_offline_summary single_row_state = Inr r \<and>
           map_of r ''recommendation'' =
             Some (VStr (recommend
                           (lower (if fl_gt (l_macd_line latest) (l_signal_line latest)
                                   then ''Bullish'' else ''Bearish''))
                           (VNum (py_round (l_rsi latest) 2))
                           (num_of (dict_get_or inf0 ''trailingPE'' (VStr ''N/A'')))
                           (VNum (py_round (rf_sharpe_ratio figures) 2))
                           (VNum (py_round (rf_current_drawdown figures) 4)))) \<and>
           map_of r ''risk_level'' =
             Some (VStr (assess_risk_level (VNum (py_round (rf_std_dev figures) 4))
                           (VNum (py_round (rf_current_drawdown figures) 4))
                           (VNum (py_round (rf_sharpe_ratio figures) 2)))))"
proof -
  have h2: "dict_get single_row_state ''success'' = VBool True"
    by (simp add: single_row_state_def dict_get_def)
  show ?thesis
    by (intro conjI single_row_analysed h2 rounded_values_decide [OF single_row_analysed h2])
qed

end
